theory Spec2Isabelle
  imports Main "HOL-Library.Word" "HOL-Library.Multiset"
begin

unbundle bit_operations_syntax

section \<open>The foreign class registry (libvips/foreign/foreign.c)\<close>

text \<open>
  A \<^verbatim>\<open>VipsForeignClass\<close> carries the fields that discovery reads: the nickname of
  the operation, its GObject class name, the operation flags, the priority (a C
  \<^verbatim>\<open>int\<close>, so a 32-bit word read with \<open>sint\<close>) and the NULL-terminated suffix
  list (\<open>None\<close> when the pointer is NULL). A load class adds the optional
  \<^verbatim>\<open>is_a\<close> sniffer: a predicate on the filename that looks at the first bytes of
  the file of that name.
\<close>

record VipsForeignClass =
  nickname :: string
  class_name :: string
  operation_flags :: "32 word"
  priority :: "32 word"
  suffs :: "string list option"

record VipsForeignLoadClass = VipsForeignClass +
  is_a :: "(string \<Rightarrow> bool) option"

text \<open>\<^verbatim>\<open>VIPS_OPERATION_BLOCKED\<close> of the \<^verbatim>\<open>VipsOperationFlags\<close> enumeration.\<close>

definition VIPS_OPERATION_BLOCKED :: "32 word" where
  "VIPS_OPERATION_BLOCKED = 32"

text \<open>
  The two string tests used on nicknames: \<^verbatim>\<open>vips_isprefix(a, b)\<close> is true when
  \<open>a\<close> starts \<open>b\<close>, \<^verbatim>\<open>g_str_has_suffix(str, suffix)\<close> when \<open>str\<close> ends
  with \<open>suffix\<close>.
\<close>

definition vips_isprefix :: "string \<Rightarrow> string \<Rightarrow> bool" where
  "vips_isprefix a b = (take (length a) b = a)"

definition g_str_has_suffix :: "string \<Rightarrow> string \<Rightarrow> bool" where
  "g_str_has_suffix str suffix =
     (length suffix \<le> length str \<and> drop (length str - length suffix) str = suffix)"

text \<open>
  \<^verbatim>\<open>file_add_class\<close>: blocked classes and the classes whose nickname starts with
  \<^verbatim>\<open>rawload\<close> are left out, every other class is appended to the list.
\<close>

definition file_add_class ::
  "'a VipsForeignClass_scheme \<Rightarrow> 'a VipsForeignClass_scheme list
     \<Rightarrow> 'a VipsForeignClass_scheme list" where
  "file_add_class cls files =
     (if operation_flags cls AND VIPS_OPERATION_BLOCKED \<noteq> 0 then files
      else if vips_isprefix ''rawload'' (nickname cls) then files
      else files @ [cls])"

text \<open>
  \<^verbatim>\<open>file_compare\<close> is the subtraction of two C ints; the result is a C int too, so
  the difference wraps at 32 bits.
\<close>

definition file_compare ::
  "'a VipsForeignClass_scheme \<Rightarrow> 'a VipsForeignClass_scheme \<Rightarrow> 32 word" where
  "file_compare a b = priority b - priority a"

text \<open>
  \<^verbatim>\<open>g_slist_sort\<close> is GLib's merge sort on singly linked lists. The merge takes the
  head of the first list when the comparison is \<open>\<le> 0\<close>; the list is cut after its
  first \<open>n div 2\<close> cells (the slow pointer of the fast/slow walk).
\<close>

fun g_slist_sort_merge :: "('a \<Rightarrow> 'a \<Rightarrow> 32 word) \<Rightarrow> 'a list \<Rightarrow> 'a list \<Rightarrow> 'a list" where
  "g_slist_sort_merge cmp [] l2 = l2"
| "g_slist_sort_merge cmp (x # l1) [] = x # l1"
| "g_slist_sort_merge cmp (x # l1) (y # l2) =
     (if sint (cmp x y) \<le> 0 then x # g_slist_sort_merge cmp l1 (y # l2)
      else y # g_slist_sort_merge cmp (x # l1) l2)"

function g_slist_sort :: "('a \<Rightarrow> 'a \<Rightarrow> 32 word) \<Rightarrow> 'a list \<Rightarrow> 'a list" where
  "g_slist_sort cmp [] = []"
| "g_slist_sort cmp [x] = [x]"
| "g_slist_sort cmp (x # y # zs) =
     g_slist_sort_merge cmp
       (g_slist_sort cmp (take (length (x # y # zs) div 2) (x # y # zs)))
       (g_slist_sort cmp (drop (length (x # y # zs) div 2) (x # y # zs)))"
  by pat_completeness auto
termination
  by (relation "measure (\<lambda>(cmp, l). length l)") auto

text \<open>
  \<^verbatim>\<open>vips_slist_map2\<close> applies the function to each element in list order and stops
  at the first result that is not NULL.
\<close>

fun vips_slist_map2 :: "('a \<Rightarrow> 'b option) \<Rightarrow> 'a list \<Rightarrow> 'b option" where
  "vips_slist_map2 fn [] = None"
| "vips_slist_map2 fn (x # xs) =
     (case fn x of Some r \<Rightarrow> Some r | None \<Rightarrow> vips_slist_map2 fn xs)"

text \<open>
  \<^verbatim>\<open>vips_foreign_map\<close>. The registry is the list of the classes below the base
  class, in the order in which \<^verbatim>\<open>vips_class_map_all\<close> presents them (the
  registration order). \<open>vips_foreign_map_files\<close> is the temporary list \<^verbatim>\<open>files\<close>
  after the sort: the order in which the classes are visited.
\<close>

definition vips_foreign_map_files ::
  "'a VipsForeignClass_scheme list \<Rightarrow> 'a VipsForeignClass_scheme list" where
  "vips_foreign_map_files registry =
     g_slist_sort file_compare (fold file_add_class registry [])"

definition vips_foreign_map ::
  "'a VipsForeignClass_scheme list \<Rightarrow> ('a VipsForeignClass_scheme \<Rightarrow> 'b option) \<Rightarrow> 'b option" where
  "vips_foreign_map registry fn = vips_slist_map2 fn (vips_foreign_map_files registry)"

text \<open>
  The file system and the filename helpers that \<^verbatim>\<open>vips_foreign_find_load\<close> calls:
  \<^verbatim>\<open>vips__filename_split8\<close> (filename and option string), \<^verbatim>\<open>vips_existsf\<close>,
  \<^verbatim>\<open>vips_isdirf\<close> and \<^verbatim>\<open>vips_filename_suffix_match\<close>.
\<close>

record file_env =
  vips__filename_split8 :: "string \<Rightarrow> string \<times> string"
  vips_existsf :: "string \<Rightarrow> bool"
  vips_isdirf :: "string \<Rightarrow> bool"
  vips_filename_suffix_match :: "string \<Rightarrow> string list \<Rightarrow> bool"

datatype find_error = FileDoesNotExist | IsADirectory | NotAKnownFileFormat

text \<open>\<^verbatim>\<open>vips_foreign_find_load_sub\<close>: can this class open this file?\<close>

definition vips_foreign_find_load_sub ::
  "file_env \<Rightarrow> string \<Rightarrow> VipsForeignLoadClass \<Rightarrow> VipsForeignLoadClass option" where
  "vips_foreign_find_load_sub env filename load_class =
     (if g_str_has_suffix (nickname load_class) ''_buffer'' \<or>
         g_str_has_suffix (nickname load_class) ''_source'' then None
      else case is_a load_class of
        Some sniff \<Rightarrow> (if sniff filename then Some load_class else None)
      | None \<Rightarrow>
         (case suffs load_class of
            Some ss \<Rightarrow>
              (if vips_filename_suffix_match env filename ss then Some load_class else None)
          | None \<Rightarrow> None))"

text \<open>
  \<^verbatim>\<open>vips_foreign_find_load\<close>. \<open>vips_foreign_find_load_class\<close> is the class the
  search selects (the variable \<^verbatim>\<open>load_class\<close>), the function itself returns its
  class name.
\<close>

definition vips_foreign_find_load_class ::
  "file_env \<Rightarrow> VipsForeignLoadClass list \<Rightarrow> string \<Rightarrow> find_error + VipsForeignLoadClass" where
  "vips_foreign_find_load_class env registry name =
     (let filename = fst (vips__filename_split8 env name) in
      if \<not> vips_existsf env filename then Inl FileDoesNotExist
      else if vips_isdirf env filename then Inl IsADirectory
      else case vips_foreign_map registry (vips_foreign_find_load_sub env filename) of
             None \<Rightarrow> Inl NotAKnownFileFormat
           | Some load_class \<Rightarrow> Inr load_class)"

definition vips_foreign_find_load ::
  "file_env \<Rightarrow> VipsForeignLoadClass list \<Rightarrow> string \<Rightarrow> find_error + string" where
  "vips_foreign_find_load env registry name =
     map_sum id class_name (vips_foreign_find_load_class env registry name)"

text \<open>
  \<^verbatim>\<open>vips_foreign_get_suffixes\<close>: a first pass counts the suffixes, a second pass
  copies them into the array of \<open>n_suffs + 1\<close> cells. The result is the array up to
  its NULL terminator.
\<close>

definition vips_foreign_get_suffixes_count_cb ::
  "'a VipsForeignClass_scheme \<Rightarrow> nat \<Rightarrow> nat" where
  "vips_foreign_get_suffixes_count_cb save_class n_fields =
     (case suffs save_class of None \<Rightarrow> n_fields | Some ss \<Rightarrow> n_fields + length ss)"

definition vips_foreign_get_suffixes_add_cb ::
  "'a VipsForeignClass_scheme \<Rightarrow> string list \<Rightarrow> string list" where
  "vips_foreign_get_suffixes_add_cb save_class p =
     (case suffs save_class of None \<Rightarrow> p | Some ss \<Rightarrow> p @ ss)"

definition vips_foreign_get_suffixes_n_suffs :: "'a VipsForeignClass_scheme list \<Rightarrow> nat" where
  "vips_foreign_get_suffixes_n_suffs registry =
     fold vips_foreign_get_suffixes_count_cb (vips_foreign_map_files registry) 0"

definition vips_foreign_get_suffixes :: "'a VipsForeignClass_scheme list \<Rightarrow> string list" where
  "vips_foreign_get_suffixes registry =
     fold vips_foreign_get_suffixes_add_cb (vips_foreign_map_files registry) []"

section \<open>Images\<close>

text \<open>
  The header fields of a \<^verbatim>\<open>VipsImage\<close> that this file reads, and its metadata:
  the list of named fields in the order of \<^verbatim>\<open>meta_traverse\<close>. A band format
  indexes the ten-entry format tables, so \<^verbatim>\<open>VIPS_FORMAT_NOTSET\<close> is left out.
  \<open>pels\<close> stands for the pixel data: the band elements (\<^verbatim>\<open>VipsPel\<close>) that the
  image yields, in storage order, read as integers. The functions of this file never
  look at them; only the image operations do.
\<close>

datatype VipsBandFormat =
    VIPS_FORMAT_UCHAR | VIPS_FORMAT_CHAR | VIPS_FORMAT_USHORT | VIPS_FORMAT_SHORT
  | VIPS_FORMAT_UINT | VIPS_FORMAT_INT | VIPS_FORMAT_FLOAT | VIPS_FORMAT_COMPLEX
  | VIPS_FORMAT_DOUBLE | VIPS_FORMAT_DPCOMPLEX

datatype VipsCoding =
  VIPS_CODING_ERROR | VIPS_CODING_NONE | VIPS_CODING_LABQ | VIPS_CODING_RAD

datatype VipsInterpretation =
    VIPS_INTERPRETATION_ERROR | VIPS_INTERPRETATION_MULTIBAND | VIPS_INTERPRETATION_B_W
  | VIPS_INTERPRETATION_HISTOGRAM | VIPS_INTERPRETATION_XYZ | VIPS_INTERPRETATION_LAB
  | VIPS_INTERPRETATION_CMYK | VIPS_INTERPRETATION_LABQ | VIPS_INTERPRETATION_RGB
  | VIPS_INTERPRETATION_CMC | VIPS_INTERPRETATION_LCH | VIPS_INTERPRETATION_LABS
  | VIPS_INTERPRETATION_sRGB | VIPS_INTERPRETATION_YXY | VIPS_INTERPRETATION_FOURIER
  | VIPS_INTERPRETATION_RGB16 | VIPS_INTERPRETATION_GREY16 | VIPS_INTERPRETATION_MATRIX
  | VIPS_INTERPRETATION_scRGB | VIPS_INTERPRETATION_HSV

datatype meta_value =
  MetaBlob "8 word list" | MetaInt int | MetaString string

record VipsImage =
  Xsize :: int
  Ysize :: int
  Bands :: int
  BandFmt :: VipsBandFormat
  Coding :: VipsCoding
  Type :: VipsInterpretation
  meta :: "(string \<times> meta_value) list"
  pels :: "int list"

section \<open>The load pipeline\<close>

datatype VipsAccess =
  VIPS_ACCESS_RANDOM | VIPS_ACCESS_SEQUENTIAL | VIPS_ACCESS_SEQUENTIAL_UNBUFFERED

text \<open>The \<^verbatim>\<open>VipsForeignFlags\<close> bits.\<close>

definition VIPS_FOREIGN_PARTIAL :: "32 word" where
  "VIPS_FOREIGN_PARTIAL = 1"

definition VIPS_FOREIGN_BIGENDIAN :: "32 word" where
  "VIPS_FOREIGN_BIGENDIAN = 2"

definition VIPS_FOREIGN_SEQUENTIAL :: "32 word" where
  "VIPS_FOREIGN_SEQUENTIAL = 4"

text \<open>
  The fields of a \<^verbatim>\<open>VipsForeignLoad\<close> that the lazy open uses. Two fields are not
  in the C struct and only record calls: \<open>invalidated\<close> is set when
  \<^verbatim>\<open>vips_operation_invalidate\<close> is called on the operation, \<open>load_calls\<close> counts
  the calls of the handler's \<^verbatim>\<open>class->load\<close>.
\<close>

record VipsForeignLoad =
  memory :: bool
  access :: VipsAccess
  flags :: "32 word"
  disc :: bool
  error :: bool
  out :: VipsImage
  real :: "VipsImage option"
  invalidated :: bool
  load_calls :: nat

text \<open>
  The image that \<^verbatim>\<open>vips_foreign_load_temp\<close> makes is named after the constructor
  it calls: \<^verbatim>\<open>vips_image_new_memory()\<close>, \<^verbatim>\<open>vips_image_new()\<close> (the handler
  writes to the image directly) or \<^verbatim>\<open>vips_image_new_temp_file("%s.v")\<close>.
\<close>

datatype temp_image = Image_new_memory | Image_new | Image_new_temp_file

datatype VipsRegion = Region VipsImage

text \<open>
  What the lazy open calls outside this file: the disc threshold and the macro
  \<^verbatim>\<open>VIPS_IMAGE_SIZEOF_IMAGE\<close> (both \<^verbatim>\<open>guint64\<close>), the image constructors (they
  can return NULL), the handler's \<^verbatim>\<open>class->load\<close> (its return code and the image
  it leaves in \<^verbatim>\<open>load->real\<close>), \<^verbatim>\<open>vips_image_pio_input\<close>,
  \<^verbatim>\<open>vips_image_pipelinev\<close> and \<^verbatim>\<open>vips_region_new\<close>. A return code other than
  0 is a failure.
\<close>

record load_env =
  vips_get_disc_threshold :: "64 word"
  VIPS_IMAGE_SIZEOF_IMAGE :: "VipsImage \<Rightarrow> 64 word"
  new_temp_image :: "temp_image \<Rightarrow> VipsImage option"
  class_load :: "VipsForeignLoad \<Rightarrow> int \<times> VipsImage"
  vips_image_pio_input :: "VipsImage \<Rightarrow> int"
  vips_image_pipelinev :: "VipsImage \<Rightarrow> VipsImage \<Rightarrow> int"
  vips_region_new :: "VipsImage \<Rightarrow> VipsRegion option"

definition vips_foreign_load_temp ::
  "load_env \<Rightarrow> VipsForeignLoad \<Rightarrow> temp_image \<times> VipsForeignLoad" where
  "vips_foreign_load_temp env load0 =
     (let disc_threshold = vips_get_disc_threshold env;
          image_size = VIPS_IMAGE_SIZEOF_IMAGE env (out load0);
          load = (if \<not> disc load0 then load0\<lparr>memory := True\<rparr> else load0)
      in if memory load then (Image_new_memory, load)
         else if flags load AND VIPS_FOREIGN_PARTIAL \<noteq> 0 then (Image_new, load)
         else if flags load AND VIPS_FOREIGN_SEQUENTIAL \<noteq> 0 \<and>
                 access load \<noteq> VIPS_ACCESS_RANDOM then (Image_new, load)
         else if image_size > disc_threshold then (Image_new_temp_file, load)
         else (Image_new_memory, load))"

definition vips_foreign_load_iscompat :: "VipsImage \<Rightarrow> VipsImage \<Rightarrow> bool" where
  "vips_foreign_load_iscompat a b =
     (if Xsize a \<noteq> Xsize b \<or> Ysize a \<noteq> Ysize b \<or> Bands a \<noteq> Bands b \<or>
         Coding a \<noteq> Coding b \<or> BandFmt a \<noteq> BandFmt b
      then False else True)"

text \<open>
  \<^verbatim>\<open>vips_foreign_load_start\<close>: the start function of the output image, called
  for each pixel request. It returns the region (NULL is \<open>None\<close>) and the load object
  as it leaves it.
\<close>

definition vips_foreign_load_start ::
  "load_env \<Rightarrow> VipsImage \<Rightarrow> VipsForeignLoad \<Rightarrow> VipsRegion option \<times> VipsForeignLoad" where
  "vips_foreign_load_start env out_image load =
     (if error load then (None, load)
      else case real load of
        Some r \<Rightarrow> (vips_region_new env r, load)
      | None \<Rightarrow>
         (let (temp, load1) = vips_foreign_load_temp env load in
          case new_temp_image env temp of
            None \<Rightarrow> (None, load1)
          | Some r0 \<Rightarrow>
             (let load2 = load1\<lparr>real := Some r0\<rparr>;
                  (rc, r) = class_load env load2;
                  load3 = load2\<lparr>real := Some r, load_calls := Suc (load_calls load2)\<rparr>
              in if rc \<noteq> 0 \<or> vips_image_pio_input env r \<noteq> 0 \<or>
                    \<not> vips_foreign_load_iscompat r out_image
                 then (None, load3\<lparr>invalidated := True, error := True\<rparr>)
                 else if vips_image_pipelinev env (out load3) r \<noteq> 0 then (None, load3)
                 else (vips_region_new env r, load3))))"

text \<open>
  A sequence of pixel requests on one load object: each request runs the start
  function with its own environment and output image, on the load object the
  previous request left.
\<close>

fun vips_foreign_load_requests ::
  "(load_env \<times> VipsImage) list \<Rightarrow> VipsForeignLoad \<Rightarrow> VipsRegion option list \<times> VipsForeignLoad" where
  "vips_foreign_load_requests [] load = ([], load)"
| "vips_foreign_load_requests ((env, out_image) # reqs) load =
     (let (r, load1) = vips_foreign_load_start env out_image load;
          (rs, load2) = vips_foreign_load_requests reqs load1
      in (r # rs, load2))"

text \<open>
  The decision order of the specification for the backing store of the decoded
  image, in its own words: forced in-memory, else in place for a lazy-partial
  handler, else in place for a sequential handler under non-random access, else a
  temporary file on disc above the threshold, else in memory.
\<close>

datatype backing_store = In_memory | In_place | Temporary_on_disc

definition spec_backing_store :: "bool \<Rightarrow> bool \<Rightarrow> bool \<Rightarrow> bool \<Rightarrow> bool \<Rightarrow> backing_store" where
  "spec_backing_store memory_forced lazy_partial sequential non_random over_threshold =
     (if memory_forced then In_memory
      else if lazy_partial then In_place
      else if sequential \<and> non_random then In_place
      else if over_threshold then Temporary_on_disc
      else In_memory)"

fun store_of :: "temp_image \<Rightarrow> backing_store" where
  "store_of Image_new_memory = In_memory"
| "store_of Image_new = In_place"
| "store_of Image_new_temp_file = Temporary_on_disc"

section \<open>The saveable normalizer\<close>

text \<open>The \<^verbatim>\<open>VipsForeignSaveable\<close> and \<^verbatim>\<open>VipsForeignCoding\<close> flag values.\<close>

definition VIPS_FOREIGN_SAVEABLE_ANY :: "32 word" where
  "VIPS_FOREIGN_SAVEABLE_ANY = 0"

definition VIPS_FOREIGN_SAVEABLE_MONO :: "32 word" where
  "VIPS_FOREIGN_SAVEABLE_MONO = 1"

definition VIPS_FOREIGN_SAVEABLE_RGB :: "32 word" where
  "VIPS_FOREIGN_SAVEABLE_RGB = 2"

definition VIPS_FOREIGN_SAVEABLE_CMYK :: "32 word" where
  "VIPS_FOREIGN_SAVEABLE_CMYK = 4"

definition VIPS_FOREIGN_SAVEABLE_ALPHA :: "32 word" where
  "VIPS_FOREIGN_SAVEABLE_ALPHA = 8"

definition VIPS_FOREIGN_CODING_NONE :: "32 word" where
  "VIPS_FOREIGN_CODING_NONE = 1"

definition VIPS_FOREIGN_CODING_LABQ :: "32 word" where
  "VIPS_FOREIGN_CODING_LABQ = 2"

definition VIPS_FOREIGN_CODING_RAD :: "32 word" where
  "VIPS_FOREIGN_CODING_RAD = 4"

text \<open>A \<^verbatim>\<open>VipsArrayDouble\<close> (the background) is only passed on to \<^verbatim>\<open>vips_flatten\<close>.\<close>

typedecl VipsArrayDouble

text \<open>
  The image operations that the normalizer calls. Each of them lives outside this
  file and can fail (\<open>None\<close>); the arguments are the ones the calls pass:
  \<^verbatim>\<open>vips_colourspace\<close> the target interpretation, \<^verbatim>\<open>vips_icc_export\<close> the depth,
  \<^verbatim>\<open>vips_extract_band\<close> the first band and the number of bands,
  \<^verbatim>\<open>vips_cast\<close> the format and the \<^verbatim>\<open>shift\<close> option.
\<close>

record image_ops =
  vips_LabQ2sRGB :: "VipsImage \<Rightarrow> VipsImage option"
  vips_rad2float :: "VipsImage \<Rightarrow> VipsImage option"
  vips_image_guess_interpretation :: "VipsImage \<Rightarrow> VipsInterpretation"
  vips_icc_import :: "VipsImage \<Rightarrow> VipsImage option"
  vips_colourspace :: "VipsImage \<Rightarrow> VipsInterpretation \<Rightarrow> VipsImage option"
  vips_icc_export :: "VipsImage \<Rightarrow> int \<Rightarrow> VipsImage option"
  vips_image_hasalpha :: "VipsImage \<Rightarrow> bool"
  vips_flatten :: "VipsImage \<Rightarrow> VipsArrayDouble \<Rightarrow> VipsImage option"
  vips_extract_band :: "VipsImage \<Rightarrow> int \<Rightarrow> int \<Rightarrow> VipsImage option"
  vips_cast :: "VipsImage \<Rightarrow> VipsBandFormat \<Rightarrow> bool \<Rightarrow> VipsImage option"
  vips_Lab2LabQ :: "VipsImage \<Rightarrow> VipsImage option"
  vips_float2rad :: "VipsImage \<Rightarrow> VipsImage option"
  vips_image_decode :: "VipsImage \<Rightarrow> VipsImage option"
  vips_copy :: "VipsImage \<Rightarrow> VipsImage option"

datatype save_error =
    OperationFailed
  | SaverDoesNotSupportAnyOutputType
  | ExifUpdateFailed
  | RemoveFailed
  | ParentBuildFailed

text \<open>
  Modelled from the spec: \<^verbatim>\<open>vips_band_format_is8bit\<close> is not in the files at
  hand. The specification speaks of the ten numeric pixel formats
  ``unsigned/signed 8/16/32-bit int, 32/64-bit float, two complex variants''; the
  8-bit ones are the unsigned and the signed char. \<open>format_bits\<close> is the width of
  one band element of each format.
\<close>

fun vips_band_format_is8bit :: "VipsBandFormat \<Rightarrow> bool" where
  "vips_band_format_is8bit VIPS_FORMAT_UCHAR = True"
| "vips_band_format_is8bit VIPS_FORMAT_CHAR = True"
| "vips_band_format_is8bit _ = False"

fun format_bits :: "VipsBandFormat \<Rightarrow> nat" where
  "format_bits VIPS_FORMAT_UCHAR = 8"
| "format_bits VIPS_FORMAT_CHAR = 8"
| "format_bits VIPS_FORMAT_USHORT = 16"
| "format_bits VIPS_FORMAT_SHORT = 16"
| "format_bits VIPS_FORMAT_UINT = 32"
| "format_bits VIPS_FORMAT_INT = 32"
| "format_bits VIPS_FORMAT_FLOAT = 32"
| "format_bits VIPS_FORMAT_COMPLEX = 64"
| "format_bits VIPS_FORMAT_DOUBLE = 64"
| "format_bits VIPS_FORMAT_DPCOMPLEX = 128"

text \<open>
  Modelled from the spec: \<^verbatim>\<open>vips_cast\<close> is not in the files at hand. The
  specification says of the numeric-format cast that a cast which ``narrows width
  from wider-than-8-bit to 8-bit'' applies ``a right-shift-style rescale rather than
  a raw truncation'', so that ``a source value of 0x1234 maps to a value derived from
  0x12, not 0x34''. For the integer formats: with the shift, a band element of \<open>w\<close>
  bits that goes to an 8-bit format is shifted right by \<open>w - 8\<close> bits; without the
  shift, an element that goes to a narrower format keeps its low bits (the raw
  truncation). The elements of the float and complex formats are left as they are.
\<close>

fun format_isint :: "VipsBandFormat \<Rightarrow> bool" where
  "format_isint VIPS_FORMAT_UCHAR = True"
| "format_isint VIPS_FORMAT_CHAR = True"
| "format_isint VIPS_FORMAT_USHORT = True"
| "format_isint VIPS_FORMAT_SHORT = True"
| "format_isint VIPS_FORMAT_UINT = True"
| "format_isint VIPS_FORMAT_INT = True"
| "format_isint _ = False"

definition spec_cast_element :: "VipsBandFormat \<Rightarrow> VipsBandFormat \<Rightarrow> bool \<Rightarrow> int \<Rightarrow> int" where
  "spec_cast_element src dst shift v =
     (if format_isint src \<and> format_isint dst then
        (if shift \<and> 8 < format_bits src \<and> format_bits dst = 8
         then v div 2 ^ (format_bits src - 8)
         else if format_bits dst < format_bits src then v mod 2 ^ format_bits dst
         else v)
      else v)"

definition spec_vips_cast :: "VipsImage \<Rightarrow> VipsBandFormat \<Rightarrow> bool \<Rightarrow> VipsImage option" where
  "spec_vips_cast im f shift =
     Some (im\<lparr>BandFmt := f, pels := map (spec_cast_element (BandFmt im) f shift) (pels im)\<rparr>)"

text \<open>\<^verbatim>\<open>vips_foreign_apply_saveable\<close>: the conversions to mono, RGB or CMYK.\<close>

definition vips_foreign_apply_saveable ::
  "image_ops \<Rightarrow> VipsImage \<Rightarrow> 32 word \<Rightarrow> save_error + VipsImage" where
  "vips_foreign_apply_saveable ops in0 saveable =
     (let sixteenbit = (BandFmt in0 = VIPS_FORMAT_USHORT) in
      if saveable = VIPS_FOREIGN_SAVEABLE_ANY then Inr in0
      else
        case (if Coding in0 = VIPS_CODING_LABQ then vips_LabQ2sRGB ops in0 else Some in0) of
          None \<Rightarrow> Inl OperationFailed
        | Some in1 \<Rightarrow>
        case (if Coding in1 = VIPS_CODING_RAD then vips_rad2float ops in1 else Some in1) of
          None \<Rightarrow> Inl OperationFailed
        | Some in2 \<Rightarrow>
        if saveable AND VIPS_FOREIGN_SAVEABLE_MONO \<noteq> 0 \<and> Bands in2 < 3 then Inr in2
        else if vips_image_guess_interpretation ops in2 = VIPS_INTERPRETATION_CMYK \<and>
                Bands in2 \<ge> 4 \<and> saveable AND VIPS_FOREIGN_SAVEABLE_CMYK \<noteq> 0 then Inr in2
        else
        case (if vips_image_guess_interpretation ops in2 = VIPS_INTERPRETATION_CMYK \<and>
                 Bands in2 \<ge> 4 then vips_icc_import ops in2 else Some in2) of
          None \<Rightarrow> Inl OperationFailed
        | Some in3 \<Rightarrow>
        if saveable AND VIPS_FOREIGN_SAVEABLE_RGB \<noteq> 0 then
          (case vips_colourspace ops in3
                  (if sixteenbit then VIPS_INTERPRETATION_RGB16 else VIPS_INTERPRETATION_sRGB) of
             None \<Rightarrow> Inl OperationFailed | Some x \<Rightarrow> Inr x)
        else if saveable AND VIPS_FOREIGN_SAVEABLE_CMYK \<noteq> 0 then
          (case vips_icc_export ops in3 (if sixteenbit then 16 else 8) of
             None \<Rightarrow> Inl OperationFailed | Some x \<Rightarrow> Inr x)
        else if saveable AND VIPS_FOREIGN_SAVEABLE_MONO \<noteq> 0 then
          (case vips_colourspace ops in3
                  (if sixteenbit then VIPS_INTERPRETATION_GREY16 else VIPS_INTERPRETATION_B_W) of
             None \<Rightarrow> Inl OperationFailed | Some x \<Rightarrow> Inr x)
        else Inl SaverDoesNotSupportAnyOutputType)"

text \<open>
  The blocks of \<^verbatim>\<open>vips__foreign_convert_saveable\<close> after the call of
  \<^verbatim>\<open>vips_foreign_apply_saveable\<close>, one function for each: flatten the alpha, drop
  the excess bands, cast to the format of the table, go to the coding the saver wants.
  Each returns the image unchanged (the same pointer) when its condition is false.
\<close>

definition flatten_alpha ::
  "image_ops \<Rightarrow> VipsImage \<Rightarrow> 32 word \<Rightarrow> VipsArrayDouble \<Rightarrow> VipsImage option" where
  "flatten_alpha ops in0 saveable background =
     (if Coding in0 = VIPS_CODING_NONE \<and> vips_image_hasalpha ops in0 \<and>
         \<not> (saveable AND VIPS_FOREIGN_SAVEABLE_ALPHA \<noteq> 0)
      then vips_flatten ops in0 background else Some in0)"

fun interpretation_max_bands :: "VipsInterpretation \<Rightarrow> int" where
  "interpretation_max_bands VIPS_INTERPRETATION_B_W = 1"
| "interpretation_max_bands VIPS_INTERPRETATION_GREY16 = 1"
| "interpretation_max_bands VIPS_INTERPRETATION_RGB = 3"
| "interpretation_max_bands VIPS_INTERPRETATION_CMC = 3"
| "interpretation_max_bands VIPS_INTERPRETATION_LCH = 3"
| "interpretation_max_bands VIPS_INTERPRETATION_LABS = 3"
| "interpretation_max_bands VIPS_INTERPRETATION_sRGB = 3"
| "interpretation_max_bands VIPS_INTERPRETATION_YXY = 3"
| "interpretation_max_bands VIPS_INTERPRETATION_XYZ = 3"
| "interpretation_max_bands VIPS_INTERPRETATION_LAB = 3"
| "interpretation_max_bands VIPS_INTERPRETATION_RGB16 = 3"
| "interpretation_max_bands VIPS_INTERPRETATION_scRGB = 3"
| "interpretation_max_bands VIPS_INTERPRETATION_HSV = 3"
| "interpretation_max_bands VIPS_INTERPRETATION_CMYK = 4"
| "interpretation_max_bands _ = 0"

definition drop_excess_bands ::
  "image_ops \<Rightarrow> VipsImage \<Rightarrow> 32 word \<Rightarrow> VipsImage option" where
  "drop_excess_bands ops in0 saveable =
     (if Coding in0 = VIPS_CODING_NONE then
        (let max_bands0 = interpretation_max_bands (vips_image_guess_interpretation ops in0);
             max_bands =
               (if saveable = VIPS_FOREIGN_SAVEABLE_ANY then Bands in0
                else if saveable AND VIPS_FOREIGN_SAVEABLE_ALPHA \<noteq> 0 then max_bands0 + 1
                else max_bands0)
         in if max_bands > 0 \<and> Bands in0 > max_bands
            then vips_extract_band ops in0 0 max_bands else Some in0)
      else Some in0)"

definition cast_to_format ::
  "image_ops \<Rightarrow> VipsImage \<Rightarrow> (VipsBandFormat \<Rightarrow> VipsBandFormat) \<Rightarrow> VipsImage option" where
  "cast_to_format ops in0 format =
     (if Coding in0 = VIPS_CODING_NONE then
        (let needs_shift =
               (\<not> vips_band_format_is8bit (BandFmt in0) \<and>
                vips_band_format_is8bit (format (BandFmt in0)))
         in vips_cast ops in0 (format (BandFmt in0)) needs_shift)
      else Some in0)"

definition recode :: "image_ops \<Rightarrow> VipsImage \<Rightarrow> 32 word \<Rightarrow> VipsImage option" where
  "recode ops in0 coding =
     (if (Coding in0 = VIPS_CODING_NONE \<and> coding AND VIPS_FOREIGN_CODING_NONE \<noteq> 0) \<or>
         (Coding in0 = VIPS_CODING_LABQ \<and> coding AND VIPS_FOREIGN_CODING_LABQ \<noteq> 0) \<or>
         (Coding in0 = VIPS_CODING_RAD \<and> coding AND VIPS_FOREIGN_CODING_RAD \<noteq> 0)
      then Some in0
      else if coding AND VIPS_FOREIGN_CODING_LABQ \<noteq> 0 then vips_Lab2LabQ ops in0
      else if coding AND VIPS_FOREIGN_CODING_RAD \<noteq> 0 then vips_float2rad ops in0
      else if coding AND VIPS_FOREIGN_CODING_NONE \<noteq> 0 then vips_image_decode ops in0
      else Some in0)"

definition vips__foreign_convert_saveable ::
  "image_ops \<Rightarrow> VipsImage \<Rightarrow> 32 word \<Rightarrow> (VipsBandFormat \<Rightarrow> VipsBandFormat) \<Rightarrow> 32 word
     \<Rightarrow> VipsArrayDouble \<Rightarrow> save_error + VipsImage" where
  "vips__foreign_convert_saveable ops in0 saveable format coding background =
     (if (Coding in0 = VIPS_CODING_LABQ \<and> coding AND VIPS_FOREIGN_CODING_LABQ \<noteq> 0) \<or>
         (Coding in0 = VIPS_CODING_RAD \<and> coding AND VIPS_FOREIGN_CODING_RAD \<noteq> 0)
      then Inr in0
      else if Coding in0 = VIPS_CODING_NONE \<and> saveable = VIPS_FOREIGN_SAVEABLE_ANY \<and>
              format (BandFmt in0) = BandFmt in0
      then Inr in0
      else
        case vips_foreign_apply_saveable ops in0 saveable of
          Inl e \<Rightarrow> Inl e
        | Inr in1 \<Rightarrow>
        case flatten_alpha ops in1 saveable background of
          None \<Rightarrow> Inl OperationFailed
        | Some in2 \<Rightarrow>
        case drop_excess_bands ops in2 saveable of
          None \<Rightarrow> Inl OperationFailed
        | Some in3 \<Rightarrow>
        case cast_to_format ops in3 format of
          None \<Rightarrow> Inl OperationFailed
        | Some in4 \<Rightarrow>
        case recode ops in4 coding of
          None \<Rightarrow> Inl OperationFailed
        | Some in5 \<Rightarrow> Inr in5)"

section \<open>The metadata policy and the save build\<close>


definition VIPS_FOREIGN_KEEP_EXIF :: "32 word" where
  "VIPS_FOREIGN_KEEP_EXIF = 1"

definition VIPS_FOREIGN_KEEP_XMP :: "32 word" where
  "VIPS_FOREIGN_KEEP_XMP = 2"

definition VIPS_FOREIGN_KEEP_IPTC :: "32 word" where
  "VIPS_FOREIGN_KEEP_IPTC = 4"

definition VIPS_FOREIGN_KEEP_ICC :: "32 word" where
  "VIPS_FOREIGN_KEEP_ICC = 8"

definition VIPS_FOREIGN_KEEP_OTHER :: "32 word" where
  "VIPS_FOREIGN_KEEP_OTHER = 16"

definition VIPS_FOREIGN_KEEP_ALL :: "32 word" where
  "VIPS_FOREIGN_KEEP_ALL = 31"

definition VIPS_META_EXIF_NAME :: string where
  "VIPS_META_EXIF_NAME = ''exif-data''"

definition VIPS_META_XMP_NAME :: string where
  "VIPS_META_XMP_NAME = ''xmp-data''"

definition VIPS_META_IPTC_NAME :: string where
  "VIPS_META_IPTC_NAME = ''iptc-data''"

definition VIPS_META_ICC_NAME :: string where
  "VIPS_META_ICC_NAME = ''icc-profile-data''"

definition VIPS_META_IMAGEDESCRIPTION :: string where
  "VIPS_META_IMAGEDESCRIPTION = ''image-description''"


text \<open>
  Modelled from the spec: the metadata key/value storage is an external
  collaborator of this file. \<^verbatim>\<open>vips_image_get_typeof\<close> is not 0 when the field is
  there, \<^verbatim>\<open>vips_image_get_blob\<close> succeeds when the field is there and holds a
  blob, \<^verbatim>\<open>vips_image_remove\<close> takes the field out and says whether it found it,
  \<^verbatim>\<open>vips_image_set_int\<close> stores an integer under the name.
\<close>

definition vips_image_get_typeof :: "VipsImage \<Rightarrow> string \<Rightarrow> bool" where
  "vips_image_get_typeof im name = (map_of (meta im) name \<noteq> None)"

definition vips_image_get_blob :: "VipsImage \<Rightarrow> string \<Rightarrow> 8 word list option" where
  "vips_image_get_blob im name =
     (case map_of (meta im) name of Some (MetaBlob d) \<Rightarrow> Some d | _ \<Rightarrow> None)"

definition vips_image_remove :: "VipsImage \<Rightarrow> string \<Rightarrow> bool \<times> VipsImage" where
  "vips_image_remove im name =
     (map_of (meta im) name \<noteq> None,
      im\<lparr>meta := filter (\<lambda>kv. fst kv \<noteq> name) (meta im)\<rparr>)"


text \<open>
  \<^verbatim>\<open>vips_foreign_save_remove_metadata\<close>, the callback of \<^verbatim>\<open>vips_image_map\<close>: the
  first component of the result is true when the callback returns the image (not
  NULL), which stops the map.
\<close>

definition vips_foreign_save_remove_metadata ::
  "VipsImage \<Rightarrow> string \<Rightarrow> 32 word \<Rightarrow> bool \<times> VipsImage" where
  "vips_foreign_save_remove_metadata im field keep =
     (if \<not> vips_isprefix ''png-comment-'' field \<and>
         \<not> vips_isprefix ''magickprofile-'' field \<and>
         field \<noteq> VIPS_META_IMAGEDESCRIPTION \<and>
         \<not> g_str_has_suffix field ''-data''
      then (False, im)
      else if (field = VIPS_META_EXIF_NAME \<and> keep AND VIPS_FOREIGN_KEEP_EXIF \<noteq> 0) \<or>
              (field = VIPS_META_XMP_NAME \<and> keep AND VIPS_FOREIGN_KEEP_XMP \<noteq> 0) \<or>
              (field = VIPS_META_IPTC_NAME \<and> keep AND VIPS_FOREIGN_KEEP_IPTC \<noteq> 0) \<or>
              (field = VIPS_META_ICC_NAME \<and> keep AND VIPS_FOREIGN_KEEP_ICC \<noteq> 0) \<or>
              keep AND VIPS_FOREIGN_KEEP_OTHER \<noteq> 0
      then (False, im)
      else (case vips_image_remove im field of
              (removed, im1) \<Rightarrow> if \<not> removed then (True, im1) else (False, im1)))"

text \<open>
  \<^verbatim>\<open>vips_image_map\<close> with this callback, over the names of the metadata fields the
  image has when the map starts. (The map also presents the built-in header fields
  such as \<^verbatim>\<open>width\<close>; the first test of the callback skips them.)
\<close>

fun vips_image_map_remove :: "string list \<Rightarrow> VipsImage \<Rightarrow> 32 word \<Rightarrow> bool \<times> VipsImage" where
  "vips_image_map_remove [] im keep = (False, im)"
| "vips_image_map_remove (field # rest) im keep =
     (case vips_foreign_save_remove_metadata im field keep of
        (True, im1) \<Rightarrow> (True, im1)
      | (False, im1) \<Rightarrow> vips_image_map_remove rest im1 keep)"

text \<open>
  What the metadata policy and the save build call outside this file:
  \<^verbatim>\<open>vips__exif_update\<close> (it can fail), \<^verbatim>\<open>vips_icc_is_compatible_profile\<close> and
  the \<^verbatim>\<open>build\<close> of the parent class (its return code).
\<close>

record 'a save_env =
  vips__exif_update :: "VipsImage \<Rightarrow> VipsImage option"
  vips_icc_is_compatible_profile :: "VipsImage \<Rightarrow> 8 word list \<Rightarrow> bool"
  parent_build :: "'a \<Rightarrow> int"

text \<open>
  \<^verbatim>\<open>vips__foreign_update_metadata\<close>, in its three blocks: rebuild the exif, remove
  the metadata that is not kept, drop an ICC profile that does not fit the image.
\<close>

definition drop_incompatible_profile ::
  "'a save_env \<Rightarrow> VipsImage \<Rightarrow> 32 word \<Rightarrow> save_error + VipsImage" where
  "drop_incompatible_profile env in0 keep =
     (if keep AND VIPS_FOREIGN_KEEP_ICC \<noteq> 0 \<and> vips_image_get_typeof in0 VIPS_META_ICC_NAME then
        (case vips_image_get_blob in0 VIPS_META_ICC_NAME of
           None \<Rightarrow> Inr in0
         | Some data \<Rightarrow>
            if \<not> vips_icc_is_compatible_profile env in0 data then
              (case vips_image_remove in0 VIPS_META_ICC_NAME of
                 (removed, in1) \<Rightarrow> if \<not> removed then Inl RemoveFailed else Inr in1)
            else Inr in0)
      else Inr in0)"

definition rebuild_exif :: "'a save_env \<Rightarrow> VipsImage \<Rightarrow> 32 word \<Rightarrow> VipsImage option" where
  "rebuild_exif env in0 keep =
     (if keep AND VIPS_FOREIGN_KEEP_EXIF \<noteq> 0 then vips__exif_update env in0 else Some in0)"

definition remove_metadata :: "VipsImage \<Rightarrow> 32 word \<Rightarrow> bool \<times> VipsImage" where
  "remove_metadata in0 keep =
     (if keep \<noteq> VIPS_FOREIGN_KEEP_ALL
      then vips_image_map_remove (map fst (meta in0)) in0 keep
      else (False, in0))"

definition vips__foreign_update_metadata ::
  "'a save_env \<Rightarrow> VipsImage \<Rightarrow> 32 word \<Rightarrow> save_error + VipsImage" where
  "vips__foreign_update_metadata env in0 keep =
     (case rebuild_exif env in0 keep of
        None \<Rightarrow> Inl ExifUpdateFailed
      | Some in1 \<Rightarrow>
         (case remove_metadata in1 keep of
            (True, in2) \<Rightarrow> Inl RemoveFailed
          | (False, in2) \<Rightarrow> drop_incompatible_profile env in2 keep))"

text \<open>
  The save object and the fields of its class. \<open>argument_isset\<close> is
  \<^verbatim>\<open>vips_object_argument_isset\<close> on this object.
\<close>

record VipsForeignSaveClass = VipsForeignClass +
  saveable :: "32 word"
  format_table :: "VipsBandFormat \<Rightarrow> VipsBandFormat"
  coding :: "32 word"

record VipsForeignSave =
  image_in :: "VipsImage option"
  keep :: "32 word"
  background :: VipsArrayDouble
  page_height :: int
  profile :: "string option"
  ready :: "VipsImage option"
  strip :: bool
  argument_isset :: "string \<Rightarrow> bool"



section \<open>Notions used to state the properties\<close>

text \<open>
  The classes that \<^verbatim>\<open>file_add_class\<close> lets through, and the priorities whose
  differences fit a C int: between \<open>-2^30\<close> and \<open>2^30 - 1\<close>.
\<close>

definition discoverable :: "'a VipsForeignClass_scheme \<Rightarrow> bool" where
  "discoverable c =
     (\<not> (operation_flags c AND VIPS_OPERATION_BLOCKED \<noteq> 0) \<and>
      \<not> vips_isprefix ''rawload'' (nickname c))"

definition priority_in_range :: "'a VipsForeignClass_scheme \<Rightarrow> bool" where
  "priority_in_range c = (- (2 ^ 30) \<le> sint (priority c) \<and> sint (priority c) < 2 ^ 30)"

text \<open>
  The words of the specification about loaders: a file loader is a loader that is
  neither a buffer nor a source loader; a loader matches by sniffing when it has a
  sniff predicate and the predicate accepts the file; it matches only by suffix when
  it has no sniff predicate and its suffix list matches the filename.
\<close>

definition file_loader :: "VipsForeignLoadClass \<Rightarrow> bool" where
  "file_loader c =
     (\<not> g_str_has_suffix (nickname c) ''_buffer'' \<and> \<not> g_str_has_suffix (nickname c) ''_source'')"

definition sniff_matches :: "string \<Rightarrow> VipsForeignLoadClass \<Rightarrow> bool" where
  "sniff_matches filename c = (case is_a c of Some sniff \<Rightarrow> sniff filename | None \<Rightarrow> False)"

definition suffix_only_matches :: "file_env \<Rightarrow> string \<Rightarrow> VipsForeignLoadClass \<Rightarrow> bool" where
  "suffix_only_matches env filename c =
     (is_a c = None \<and>
      (case suffs c of Some ss \<Rightarrow> vips_filename_suffix_match env filename ss | None \<Rightarrow> False))"

text \<open>A loader accepts a file when it is a file loader and matches in one of the two ways.\<close>

definition accepts :: "file_env \<Rightarrow> string \<Rightarrow> VipsForeignLoadClass \<Rightarrow> bool" where
  "accepts env filename c =
     (file_loader c \<and> (sniff_matches filename c \<or> suffix_only_matches env filename c))"

text \<open>
  A file system for the examples: every name is a file that exists, names carry no
  options, and a suffix list matches a name that ends with one of its entries.
\<close>

definition plain_files :: file_env where
  "plain_files =
     \<lparr>vips__filename_split8 = (\<lambda>name. (name, [])),
      vips_existsf = (\<lambda>_. True),
      vips_isdirf = (\<lambda>_. False),
      vips_filename_suffix_match = (\<lambda>filename ss. list_ex (g_str_has_suffix filename) ss)\<rparr>"

text \<open>
  Loaders for the examples: a tiff loader that has a suffix list and no sniff
  predicate, a loader of a format X whose sniff predicate accepts the bytes of the
  file \<^verbatim>\<open>fake.tif\<close>, and a jpeg loader whose sniff predicate accepts the file
  \<^verbatim>\<open>photo.jpg\<close>.
\<close>

definition fake_tiff_loader :: VipsForeignLoadClass where
  "fake_tiff_loader =
     \<lparr>nickname = ''tiffload'', class_name = ''VipsForeignLoadTiff'', operation_flags = 0,
      priority = 50, suffs = Some [''.tif'', ''.tiff''], is_a = None\<rparr>"

definition fake_x_loader :: "32 word \<Rightarrow> VipsForeignLoadClass" where
  "fake_x_loader p =
     \<lparr>nickname = ''xload'', class_name = ''VipsForeignLoadX'', operation_flags = 0,
      priority = p, suffs = Some [''.x''], is_a = Some (\<lambda>filename. filename = ''fake.tif'')\<rparr>"

definition fake_jpeg_loader :: VipsForeignLoadClass where
  "fake_jpeg_loader =
     \<lparr>nickname = ''jpegload'', class_name = ''VipsForeignLoadJpeg'', operation_flags = 0,
      priority = 200, suffs = Some [''.jpg''], is_a = Some (\<lambda>filename. filename = ''photo.jpg'')\<rparr>"

text \<open>
  A load for the examples: the header says 640 by 480, three bands of unsigned
  char; the handler's load succeeds but leaves an image 320 wide.
\<close>

definition header_image :: VipsImage where
  "header_image =
     \<lparr>Xsize = 640, Ysize = 480, Bands = 3, BandFmt = VIPS_FORMAT_UCHAR,
      Coding = VIPS_CODING_NONE, Type = VIPS_INTERPRETATION_sRGB, meta = [],
      pels = []\<rparr>"

definition fresh_load :: VipsForeignLoad where
  "fresh_load =
     \<lparr>memory = False, access = VIPS_ACCESS_RANDOM, flags = 0, disc = True, error = False,
      out = header_image, real = None, invalidated = False, load_calls = 0\<rparr>"

definition mismatch_env :: load_env where
  "mismatch_env =
     \<lparr>vips_get_disc_threshold = 104857600,
      VIPS_IMAGE_SIZEOF_IMAGE = (\<lambda>im. word_of_int (Xsize im * Ysize im * Bands im)),
      new_temp_image = (\<lambda>_. Some (header_image\<lparr>Xsize := 0, Ysize := 0\<rparr>)),
      class_load = (\<lambda>load. (0, header_image\<lparr>Xsize := 320\<rparr>)),
      vips_image_pio_input = (\<lambda>_. 0),
      vips_image_pipelinev = (\<lambda>_ _. 0),
      vips_region_new = (\<lambda>im. Some (Region im))\<rparr>"

text \<open>
  The two format tables of the files at hand: \<^verbatim>\<open>vips_foreign_save_format_table\<close>
  (no cast) and \<^verbatim>\<open>bandfmt_jpeg\<close> of the tiff saver (always unsigned char).
\<close>

definition vips_foreign_save_format_table :: "VipsBandFormat \<Rightarrow> VipsBandFormat" where
  "vips_foreign_save_format_table f = f"

definition bandfmt_jpeg :: "VipsBandFormat \<Rightarrow> VipsBandFormat" where
  "bandfmt_jpeg f = VIPS_FORMAT_UCHAR"

text \<open>
  Image operations for the examples. Every conversion fails, except the three
  that the examples run, which change the header as documented:
  \<^verbatim>\<open>vips_extract_band\<close> leaves \<open>n\<close> bands, \<^verbatim>\<open>vips_cast\<close> sets the band format,
  \<^verbatim>\<open>vips_copy\<close> copies. The interpretation guess is the \<^verbatim>\<open>Type\<close> field (the
  examples use images whose \<^verbatim>\<open>Type\<close> passes the sanity check), and an image has
  alpha when it has two bands, four bands that are not CMYK, or more than four.
\<close>

definition header_ops :: image_ops where
  "header_ops =
     \<lparr>vips_LabQ2sRGB = (\<lambda>_. None),
      vips_rad2float = (\<lambda>_. None),
      vips_image_guess_interpretation = Type,
      vips_icc_import = (\<lambda>_. None),
      vips_colourspace = (\<lambda>_ _. None),
      vips_icc_export = (\<lambda>_ _. None),
      vips_image_hasalpha =
        (\<lambda>im. Bands im = 2 \<or> (Bands im = 4 \<and> Type im \<noteq> VIPS_INTERPRETATION_CMYK) \<or>
               Bands im > 4),
      vips_flatten = (\<lambda>_ _. None),
      vips_extract_band = (\<lambda>im band n. Some (im\<lparr>Bands := n\<rparr>)),
      vips_cast = (\<lambda>im f shift. Some (im\<lparr>BandFmt := f\<rparr>)),
      vips_Lab2LabQ = (\<lambda>_. None),
      vips_float2rad = (\<lambda>_. None),
      vips_image_decode = (\<lambda>_. None),
      vips_copy = (\<lambda>im. Some im)\<rparr>"

text \<open>
  A 16-bit image for the examples: one pixel of one band of unsigned short, grey,
  with the value 0x1234.
\<close>

definition grey16_image :: VipsImage where
  "grey16_image =
     \<lparr>Xsize = 1, Ysize = 1, Bands = 1, BandFmt = VIPS_FORMAT_USHORT,
      Coding = VIPS_CODING_NONE, Type = VIPS_INTERPRETATION_GREY16, meta = [],
      pels = [0x1234]\<rparr>"

text \<open>A histogram image for the examples: 256 by 1, two bands of unsigned char.\<close>

definition histogram_image :: VipsImage where
  "histogram_image =
     \<lparr>Xsize = 256, Ysize = 1, Bands = 2, BandFmt = VIPS_FORMAT_UCHAR,
      Coding = VIPS_CODING_NONE, Type = VIPS_INTERPRETATION_HISTOGRAM, meta = [],
      pels = []\<rparr>"

text \<open>
  A save for the examples: an image that carries an exif block, an ICC profile and
  an xmp block; an environment whose exif rebuild and profile check succeed or fail
  as its two arguments say; the class of the tiff file saver as
  \<^verbatim>\<open>vips_foreign_save_tiff_class_init\<close> sets it up; a save object on which
  \<^verbatim>\<open>keep\<close> was set to none and \<^verbatim>\<open>profile\<close> to a file name.
\<close>

definition profiled_image :: VipsImage where
  "profiled_image =
     \<lparr>Xsize = 640, Ysize = 480, Bands = 3, BandFmt = VIPS_FORMAT_UCHAR,
      Coding = VIPS_CODING_NONE, Type = VIPS_INTERPRETATION_sRGB,
      meta = [(''exif-data'', MetaBlob [69, 120]), (''icc-profile-data'', MetaBlob [1, 2, 3]),
              (''xmp-data'', MetaBlob [60])],
      pels = []\<rparr>"

definition save_env_example :: "bool \<Rightarrow> bool \<Rightarrow> VipsForeignSave save_env" where
  "save_env_example exif_ok profile_ok =
     \<lparr>vips__exif_update = (\<lambda>im. if exif_ok then Some im else None),
      vips_icc_is_compatible_profile = (\<lambda>_ _. profile_ok),
      parent_build = (\<lambda>_. 0)\<rparr>"



section \<open>Properties of the registry\<close>

lemma fold_file_add_class:
  "fold file_add_class registry files = files @ filter discoverable registry"
  by (induction registry arbitrary: files) (auto simp: file_add_class_def discoverable_def)

lemma mset_g_slist_sort_merge:
  "mset (g_slist_sort_merge cmp l1 l2) = mset l1 + mset l2"
  by (induction cmp l1 l2 rule: g_slist_sort_merge.induct) auto

lemma mset_g_slist_sort: "mset (g_slist_sort cmp l) = mset l"
proof (induction cmp l rule: g_slist_sort.induct)
  case (3 cmp x y zs)
  let ?l = "x # y # zs"
  have "mset (g_slist_sort cmp ?l) =
        mset (take (length ?l div 2) ?l) + mset (drop (length ?l div 2) ?l)"
    using 3 by (simp add: mset_g_slist_sort_merge del: take_Suc_Cons drop_Suc_Cons)
  also have "\<dots> = mset (take (length ?l div 2) ?l @ drop (length ?l div 2) ?l)"
    by (simp only: mset_append)
  finally show ?case by (simp only: append_take_drop_id)
qed simp_all

lemma set_g_slist_sort_merge:
  "set (g_slist_sort_merge cmp l1 l2) = set l1 \<union> set l2"
  using mset_g_slist_sort_merge [of cmp l1 l2] by (metis set_mset_mset set_mset_union)

lemma set_g_slist_sort: "set (g_slist_sort cmp l) = set l"
  using mset_g_slist_sort [of cmp l] by (metis set_mset_mset)

text \<open>
  The merge of two lists sorted by a descending key is sorted, and it keeps the
  elements of each key in their order (first list before second), as long as the
  comparison agrees with the key on the elements at hand.
\<close>

lemma sorted_g_slist_sort_merge:
  assumes "\<And>x y. x \<in> set l1 \<Longrightarrow> y \<in> set l2 \<Longrightarrow> (sint (cmp x y) \<le> 0) = (k y \<le> k x)"
      and "sorted_wrt (\<lambda>a b. k b \<le> k a) l1" "sorted_wrt (\<lambda>a b. k b \<le> k a) l2"
  shows "sorted_wrt (\<lambda>a b. (k b :: int) \<le> k a) (g_slist_sort_merge cmp l1 l2)"
  using assms
proof (induction cmp l1 l2 rule: g_slist_sort_merge.induct)
  case (3 cmp x l1 y l2)
  have c: "(sint (cmp x y) \<le> 0) = (k y \<le> k x)"
    using 3(3) by simp
  show ?case
  proof (cases "sint (cmp x y) \<le> 0")
    case True
    have "sorted_wrt (\<lambda>a b. k b \<le> k a) (g_slist_sort_merge cmp l1 (y # l2))"
      using True 3 by (intro 3(1)) auto
    with True c 3(4,5) show ?thesis by (auto simp: set_g_slist_sort_merge)
  next
    case False
    have "sorted_wrt (\<lambda>a b. k b \<le> k a) (g_slist_sort_merge cmp (x # l1) l2)"
      using False 3 by (intro 3(2)) auto
    with False c 3(4,5) show ?thesis by (auto simp: set_g_slist_sort_merge)
  qed
qed simp_all

lemma stable_g_slist_sort_merge:
  assumes "\<And>x y. x \<in> set l1 \<Longrightarrow> y \<in> set l2 \<Longrightarrow> (sint (cmp x y) \<le> 0) = (k y \<le> k x)"
      and "sorted_wrt (\<lambda>a b. (k b :: int) \<le> k a) l1"
  shows "filter (\<lambda>c. k c = p) (g_slist_sort_merge cmp l1 l2) =
         filter (\<lambda>c. k c = p) l1 @ filter (\<lambda>c. k c = p) l2"
  using assms
proof (induction cmp l1 l2 rule: g_slist_sort_merge.induct)
  case (3 cmp x l1 y l2)
  have c: "(sint (cmp x y) \<le> 0) = (k y \<le> k x)"
    using 3(3) by simp
  show ?case
  proof (cases "sint (cmp x y) \<le> 0")
    case True
    have "filter (\<lambda>c. k c = p) (g_slist_sort_merge cmp l1 (y # l2)) =
          filter (\<lambda>c. k c = p) l1 @ filter (\<lambda>c. k c = p) (y # l2)"
      using True 3 by (intro 3(1)) auto
    with True show ?thesis by simp
  next
    case False
    have ih: "filter (\<lambda>c. k c = p) (g_slist_sort_merge cmp (x # l1) l2) =
          filter (\<lambda>c. k c = p) (x # l1) @ filter (\<lambda>c. k c = p) l2"
      using False 3 by (intro 3(2)) auto
    have "filter (\<lambda>c. k c = p) (x # l1) = []" if "k y = p"
      using that False c 3(4) by (auto simp: filter_empty_conv)
    with False ih show ?thesis by auto
  qed
qed simp_all

lemma sorted_stable_g_slist_sort:
  assumes "\<And>x y. x \<in> set l \<Longrightarrow> y \<in> set l \<Longrightarrow> (sint (cmp x y) \<le> 0) = (k y \<le> k x)"
  shows "sorted_wrt (\<lambda>a b. (k b :: int) \<le> k a) (g_slist_sort cmp l) \<and>
         filter (\<lambda>c. k c = p) (g_slist_sort cmp l) = filter (\<lambda>c. k c = p) l"
  using assms
proof (induction cmp l rule: g_slist_sort.induct)
  case (3 cmp x y zs)
  let ?l = "x # y # zs"
  let ?a = "take (length ?l div 2) ?l" and ?b = "drop (length ?l div 2) ?l"
  have sub: "set ?a \<subseteq> set ?l" "set ?b \<subseteq> set ?l"
    by (rule set_take_subset, rule set_drop_subset)
  have a: "sorted_wrt (\<lambda>a b. k b \<le> k a) (g_slist_sort cmp ?a) \<and>
         filter (\<lambda>c. k c = p) (g_slist_sort cmp ?a) = filter (\<lambda>c. k c = p) ?a"
    using sub 3(3) by (intro 3(1)) blast
  have b: "sorted_wrt (\<lambda>a b. k b \<le> k a) (g_slist_sort cmp ?b) \<and>
         filter (\<lambda>c. k c = p) (g_slist_sort cmp ?b) = filter (\<lambda>c. k c = p) ?b"
    using sub 3(3) by (intro 3(2)) blast
  have agree: "(sint (cmp u v) \<le> 0) = (k v \<le> k u)"
    if "u \<in> set (g_slist_sort cmp ?a)" "v \<in> set (g_slist_sort cmp ?b)" for u v
    using that sub 3(3) unfolding set_g_slist_sort by blast
  have eq: "g_slist_sort cmp ?l =
      g_slist_sort_merge cmp (g_slist_sort cmp ?a) (g_slist_sort cmp ?b)"
    by simp
  have "sorted_wrt (\<lambda>a b. k b \<le> k a) (g_slist_sort cmp ?l)"
    unfolding eq using agree a b by (intro sorted_g_slist_sort_merge) auto
  moreover have "filter (\<lambda>c. k c = p) (g_slist_sort cmp ?l) =
        filter (\<lambda>c. k c = p) ?a @ filter (\<lambda>c. k c = p) ?b"
    unfolding eq using agree a b by (subst stable_g_slist_sort_merge [where k = k]) auto
  moreover have "filter (\<lambda>c. k c = p) ?a @ filter (\<lambda>c. k c = p) ?b =
        filter (\<lambda>c. k c = p) ?l"
    unfolding filter_append [symmetric] by (simp only: append_take_drop_id)
  ultimately show ?case by simp
qed simp_all

text \<open>Within the range the subtraction of \<^verbatim>\<open>file_compare\<close> does not wrap.\<close>

lemma sint_file_compare:
  assumes "priority_in_range a" "priority_in_range b"
  shows "sint (file_compare a b) = sint (priority b) - sint (priority a)"
proof -
  have "sint (priority b - priority a) =
        signed_take_bit (LENGTH(32) - 1) (sint (priority b) - sint (priority a))"
    by (simp add: sint_word_ariths)
  also have "\<dots> = sint (priority b) - sint (priority a)"
    using assms by (intro signed_take_bit_int_eq_self) (simp_all add: priority_in_range_def)
  finally show ?thesis by (simp add: file_compare_def)
qed

lemma vips_foreign_map_files_filter:
  "mset (vips_foreign_map_files registry) = mset (filter discoverable registry)"
  by (simp add: vips_foreign_map_files_def mset_g_slist_sort fold_file_add_class)

lemma set_vips_foreign_map_files:
  "set (vips_foreign_map_files registry) = {c \<in> set registry. discoverable c}"
  using vips_foreign_map_files_filter [of registry]
  by (metis set_filter set_mset_mset)

text \<open>
  When the priorities of the discoverable classes are in range, the visiting order
  is the stable sort of the registration order by descending priority: the same
  classes, priorities descending, and the classes of each priority in their
  registration order.
\<close>

lemma vips_foreign_map_files_stable_descending:
  assumes "\<forall>c \<in> set registry. discoverable c \<longrightarrow> priority_in_range c"
  shows "mset (vips_foreign_map_files registry) = mset (filter discoverable registry) \<and>
         sorted_wrt (\<lambda>a b. sint (priority b) \<le> sint (priority a))
           (vips_foreign_map_files registry) \<and>
         filter (\<lambda>c. sint (priority c) = p) (vips_foreign_map_files registry) =
           filter (\<lambda>c. sint (priority c) = p) (filter discoverable registry)"
proof -
  let ?files = "filter discoverable registry"
  have files: "fold file_add_class registry [] = ?files"
    by (simp add: fold_file_add_class)
  have agree: "(sint (file_compare x y) \<le> 0) = (sint (priority y) \<le> sint (priority x))"
    if "x \<in> set ?files" "y \<in> set ?files" for x y
    using that assms by (simp add: sint_file_compare)
  from sorted_stable_g_slist_sort [of ?files file_compare "\<lambda>c. sint (priority c)" p, OF agree]
  show ?thesis
    by (simp add: vips_foreign_map_files_def files mset_g_slist_sort)
qed

text \<open>
  C5. Discovery is meant to visit the classes in a stable descending order of
  priority. \<^verbatim>\<open>file_compare\<close> subtracts the priorities, and the difference of a
  priority of 2147483647 and one of -100 does not fit a C int: the comparison has the
  wrong sign and the class of priority -100 is visited before the class of priority
  2147483647.
\<close>

theorem vips_foreign_map_files_overflow:
  "sint (priority \<lparr>nickname = ''magickload'', class_name = ''VipsForeignLoadMagick'',
       operation_flags = 0, priority = - 100, suffs = None\<rparr>) <
   sint (priority \<lparr>nickname = ''firstload'', class_name = ''VipsForeignLoadFirst'',
       operation_flags = 0, priority = 2147483647, suffs = None\<rparr>) \<and>
   vips_foreign_map_files
     [\<lparr>nickname = ''firstload'', class_name = ''VipsForeignLoadFirst'',
       operation_flags = 0, priority = 2147483647, suffs = None\<rparr>,
      \<lparr>nickname = ''magickload'', class_name = ''VipsForeignLoadMagick'',
       operation_flags = 0, priority = - 100, suffs = None\<rparr>] =
     [\<lparr>nickname = ''magickload'', class_name = ''VipsForeignLoadMagick'',
       operation_flags = 0, priority = - 100, suffs = None\<rparr>,
      \<lparr>nickname = ''firstload'', class_name = ''VipsForeignLoadFirst'',
       operation_flags = 0, priority = 2147483647, suffs = None\<rparr>]"
  by (simp add: vips_foreign_map_files_def file_add_class_def vips_isprefix_def
      file_compare_def VIPS_OPERATION_BLOCKED_def)

lemma find_load_sub_cases:
  "vips_foreign_find_load_sub env filename c =
     (if file_loader c \<and> (sniff_matches filename c \<or> suffix_only_matches env filename c)
      then Some c else None)"
  by (auto simp: vips_foreign_find_load_sub_def file_loader_def sniff_matches_def
      suffix_only_matches_def split: option.splits)

lemma sniff_not_suffix_only: "sniff_matches filename c \<Longrightarrow> \<not> suffix_only_matches env filename c"
  by (auto simp: sniff_matches_def suffix_only_matches_def split: option.splits)

lemma vips_slist_map2_first_sniff:
  assumes "file_loader c" "sniff_matches filename c"
      and "\<forall>d \<in> set xs. file_loader d \<longrightarrow> \<not> suffix_only_matches env filename d"
  shows "\<exists>c'. vips_slist_map2 (vips_foreign_find_load_sub env filename) (xs @ c # ys) = Some c' \<and>
              c' \<in> set (xs @ [c]) \<and> file_loader c' \<and> sniff_matches filename c'"
  using assms by (induction xs) (auto simp: find_load_sub_cases)

lemma find_load_sub_accepts:
  "vips_foreign_find_load_sub env filename c = (if accepts env filename c then Some c else None)"
  by (simp add: find_load_sub_cases accepts_def)

lemma vips_slist_map2_first_acceptor:
  assumes "accepts env filename c" and "\<forall>d \<in> set xs. \<not> accepts env filename d"
  shows "vips_slist_map2 (vips_foreign_find_load_sub env filename) (xs @ c # ys) = Some c"
  using assms by (induction xs) (simp_all add: find_load_sub_accepts)

lemma vips_slist_map2_no_acceptor:
  assumes "\<forall>d \<in> set xs. \<not> accepts env filename d"
  shows "vips_slist_map2 (vips_foreign_find_load_sub env filename) xs = None"
  using assms by (induction xs) (simp_all add: find_load_sub_accepts)

text \<open>
  C1, amended. For a file that exists and is not a directory,
  \<^verbatim>\<open>vips_foreign_find_load\<close> returns the first class, in visiting order, that
  accepts the file: a file loader with a sniff predicate accepts when the predicate
  does, a file loader without one accepts when its suffix list matches the filename.
  When no visited class accepts, the search fails with the unknown-format error. So
  when a file loader whose sniff predicate accepts the file is visited and no file
  loader visited before it matches the filename by its suffix list only, the result
  is a registered file loader whose sniff predicate accepts the file; and a loader
  that matches only by suffix and is visited before every other accepting loader is
  the result, whatever sniffing loader comes after it.
\<close>

theorem find_load_first_acceptor:
  assumes "vips_existsf env (fst (vips__filename_split8 env name))"
      and "\<not> vips_isdirf env (fst (vips__filename_split8 env name))"
  shows "(\<forall>xs c ys. vips_foreign_map_files registry = xs @ c # ys \<longrightarrow>
            accepts env (fst (vips__filename_split8 env name)) c \<longrightarrow>
            (\<forall>d \<in> set xs. \<not> accepts env (fst (vips__filename_split8 env name)) d) \<longrightarrow>
            vips_foreign_find_load_class env registry name = Inr c \<and>
            vips_foreign_find_load env registry name = Inr (class_name c)) \<and>
         ((\<forall>d \<in> set (vips_foreign_map_files registry).
             \<not> accepts env (fst (vips__filename_split8 env name)) d) \<longrightarrow>
            vips_foreign_find_load_class env registry name = Inl NotAKnownFileFormat) \<and>
         (\<forall>xs c ys. vips_foreign_map_files registry = xs @ c # ys \<longrightarrow>
            file_loader c \<longrightarrow> sniff_matches (fst (vips__filename_split8 env name)) c \<longrightarrow>
            (\<forall>d \<in> set xs. file_loader d \<longrightarrow>
               \<not> suffix_only_matches env (fst (vips__filename_split8 env name)) d) \<longrightarrow>
            (\<exists>c'. vips_foreign_find_load_class env registry name = Inr c' \<and>
                  vips_foreign_find_load env registry name = Inr (class_name c') \<and>
                  c' \<in> set registry \<and> file_loader c' \<and>
                  sniff_matches (fst (vips__filename_split8 env name)) c'))"
proof -
  let ?f = "fst (vips__filename_split8 env name)"
  let ?files = "vips_foreign_map_files registry"
  have cls: "vips_foreign_find_load_class env registry name =
      (case vips_slist_map2 (vips_foreign_find_load_sub env ?f) ?files of
         None \<Rightarrow> Inl NotAKnownFileFormat | Some c \<Rightarrow> Inr c)"
    using assms by (simp add: vips_foreign_find_load_class_def vips_foreign_map_def)
  have first: "vips_foreign_find_load_class env registry name = Inr c \<and>
      vips_foreign_find_load env registry name = Inr (class_name c)"
    if "?files = xs @ c # ys" "accepts env ?f c" "\<forall>d \<in> set xs. \<not> accepts env ?f d"
    for xs c ys
    using vips_slist_map2_first_acceptor [OF that(2,3), of ys] that(1)
    by (simp add: cls vips_foreign_find_load_def)
  have none: "vips_foreign_find_load_class env registry name = Inl NotAKnownFileFormat"
    if "\<forall>d \<in> set ?files. \<not> accepts env ?f d"
    using vips_slist_map2_no_acceptor [OF that] by (simp add: cls)
  have sniff: "\<exists>c'. vips_foreign_find_load_class env registry name = Inr c' \<and>
      vips_foreign_find_load env registry name = Inr (class_name c') \<and>
      c' \<in> set registry \<and> file_loader c' \<and> sniff_matches ?f c'"
    if f: "?files = xs @ c # ys" and "file_loader c" "sniff_matches ?f c"
      and "\<forall>d \<in> set xs. file_loader d \<longrightarrow> \<not> suffix_only_matches env ?f d"
    for xs c ys
  proof -
    from vips_slist_map2_first_sniff [OF that(2,3,4), of ys]
    obtain c' where c': "vips_slist_map2 (vips_foreign_find_load_sub env ?f) (xs @ c # ys) = Some c'"
      "c' \<in> set (xs @ [c])" "file_loader c'" "sniff_matches ?f c'"
      by blast
    have "c' \<in> set ?files" using c'(2) f by auto
    then have "c' \<in> set registry" by (simp add: set_vips_foreign_map_files)
    with c' f show ?thesis by (simp add: cls vips_foreign_find_load_def)
  qed
  from first none sniff show ?thesis by blast
qed

lemma plain_files_simps:
  "vips__filename_split8 plain_files name = (name, [])"
  "vips_existsf plain_files filename"
  "\<not> vips_isdirf plain_files filename"
  "vips_filename_suffix_match plain_files filename ss = list_ex (g_str_has_suffix filename) ss"
  by (simp_all add: plain_files_def)

lemma files_tx: "vips_foreign_map_files [fake_tiff_loader, fake_x_loader 0] = [fake_tiff_loader, fake_x_loader 0]"
  by (simp add: vips_foreign_map_files_def file_add_class_def vips_isprefix_def
      file_compare_def VIPS_OPERATION_BLOCKED_def fake_tiff_loader_def fake_x_loader_def)

lemma files_xt: "vips_foreign_map_files [fake_x_loader 0, fake_tiff_loader] = [fake_tiff_loader, fake_x_loader 0]"
  by (simp add: vips_foreign_map_files_def file_add_class_def vips_isprefix_def
      file_compare_def VIPS_OPERATION_BLOCKED_def fake_tiff_loader_def fake_x_loader_def)

lemma sub_tiff: "vips_foreign_find_load_sub plain_files ''fake.tif'' fake_tiff_loader = Some fake_tiff_loader"
  by (simp add: vips_foreign_find_load_sub_def g_str_has_suffix_def plain_files_simps fake_tiff_loader_def)

text \<open>
  C1 as stated fails: the sniff predicate of the X loader accepts \<^verbatim>\<open>fake.tif\<close>,
  but the tiff loader, which has a higher priority and only a suffix list, is visited
  first and is the one selected, in both registration orders.
\<close>

theorem find_load_suffix_only_first_counterexample:
  "file_loader (fake_x_loader 0) \<and> sniff_matches ''fake.tif'' (fake_x_loader 0) \<and>
   vips_foreign_find_load_class plain_files [fake_tiff_loader, fake_x_loader 0] ''fake.tif'' =
     Inr fake_tiff_loader \<and>
   vips_foreign_find_load_class plain_files [fake_x_loader 0, fake_tiff_loader] ''fake.tif'' =
     Inr fake_tiff_loader \<and>
   \<not> sniff_matches ''fake.tif'' fake_tiff_loader \<and>
   suffix_only_matches plain_files ''fake.tif'' fake_tiff_loader"
proof -
  have "file_loader (fake_x_loader 0)" "sniff_matches ''fake.tif'' (fake_x_loader 0)"
    by (simp_all add: file_loader_def sniff_matches_def fake_x_loader_def g_str_has_suffix_def)
  moreover have "\<not> sniff_matches ''fake.tif'' fake_tiff_loader"
    "suffix_only_matches plain_files ''fake.tif'' fake_tiff_loader"
    by (simp_all add: sniff_matches_def suffix_only_matches_def fake_tiff_loader_def
        plain_files_def g_str_has_suffix_def)
  moreover have "vips_foreign_find_load_class plain_files [fake_tiff_loader, fake_x_loader 0] ''fake.tif'' =
     Inr fake_tiff_loader"
    by (simp add: vips_foreign_find_load_class_def vips_foreign_map_def files_tx sub_tiff
        plain_files_simps)
  moreover have "vips_foreign_find_load_class plain_files [fake_x_loader 0, fake_tiff_loader] ''fake.tif'' =
     Inr fake_tiff_loader"
    by (simp add: vips_foreign_find_load_class_def vips_foreign_map_def files_xt sub_tiff
        plain_files_simps)
  ultimately show ?thesis by blast
qed

lemma files_jtx: "vips_foreign_map_files [fake_tiff_loader, fake_x_loader 100, fake_jpeg_loader] =
    [fake_jpeg_loader] @ fake_x_loader 100 # [fake_tiff_loader]"
  by (simp add: vips_foreign_map_files_def file_add_class_def vips_isprefix_def
      file_compare_def VIPS_OPERATION_BLOCKED_def fake_tiff_loader_def fake_x_loader_def
      fake_jpeg_loader_def)

lemma files_tx50: "vips_foreign_map_files [fake_tiff_loader, fake_x_loader 50] =
    [] @ fake_tiff_loader # [fake_x_loader 50]"
  by (simp add: vips_foreign_map_files_def file_add_class_def vips_isprefix_def
      file_compare_def VIPS_OPERATION_BLOCKED_def fake_tiff_loader_def fake_x_loader_def)

lemma files_xt50: "vips_foreign_map_files [fake_x_loader 50, fake_tiff_loader] =
    [] @ fake_x_loader 50 # [fake_tiff_loader]"
  by (simp add: vips_foreign_map_files_def file_add_class_def vips_isprefix_def
      file_compare_def VIPS_OPERATION_BLOCKED_def fake_tiff_loader_def fake_x_loader_def)

lemma accepts_examples:
  "accepts plain_files ''fake.tif'' fake_tiff_loader"
  "accepts plain_files ''fake.tif'' (fake_x_loader p)"
  "\<not> accepts plain_files ''fake.tif'' fake_jpeg_loader"
  "\<not> accepts plain_files ''other.png'' fake_tiff_loader"
  "\<not> accepts plain_files ''other.png'' (fake_x_loader p)"
  "\<not> accepts plain_files ''other.png'' fake_jpeg_loader"
  by (simp_all add: accepts_def file_loader_def sniff_matches_def suffix_only_matches_def
      plain_files_simps g_str_has_suffix_def fake_tiff_loader_def fake_x_loader_def
      fake_jpeg_loader_def)

text \<open>
  Runs of the amended C1 on \<^verbatim>\<open>fake.tif\<close>: the X loader, visited after the jpeg
  loader (which does not accept) and before the tiff loader, is the result; with
  equal priorities the loader registered first is visited first and is the result,
  be it the tiff loader that matches by suffix only or the X loader that sniffs; and
  a file that no loader accepts is of no known format.
\<close>

theorem find_load_first_acceptor_witness:
  "vips_foreign_find_load plain_files [fake_tiff_loader, fake_x_loader 100, fake_jpeg_loader]
     ''fake.tif'' = Inr ''VipsForeignLoadX'' \<and>
   vips_foreign_find_load plain_files [fake_tiff_loader, fake_x_loader 50] ''fake.tif'' =
     Inr ''VipsForeignLoadTiff'' \<and>
   vips_foreign_find_load plain_files [fake_x_loader 50, fake_tiff_loader] ''fake.tif'' =
     Inr ''VipsForeignLoadX'' \<and>
   vips_foreign_find_load_class plain_files [fake_tiff_loader, fake_x_loader 100, fake_jpeg_loader]
     ''other.png'' = Inl NotAKnownFileFormat \<and>
   (\<exists>c'. vips_foreign_find_load_class plain_files
           [fake_tiff_loader, fake_x_loader 100, fake_jpeg_loader] ''fake.tif'' = Inr c' \<and>
         sniff_matches ''fake.tif'' c')"
proof -
  have h1: "vips_existsf plain_files (fst (vips__filename_split8 plain_files n))"
    and h2: "\<not> vips_isdirf plain_files (fst (vips__filename_split8 plain_files n))" for n
    by (simp_all add: plain_files_simps)
  have f: "fst (vips__filename_split8 plain_files n) = n" for n
    by (simp add: plain_files_simps)
  note t = find_load_first_acceptor [OF h1 h2, unfolded f]
  have a: "vips_foreign_find_load plain_files [fake_tiff_loader, fake_x_loader 100, fake_jpeg_loader]
     ''fake.tif'' = Inr (class_name (fake_x_loader 100))"
    using t [of "[fake_tiff_loader, fake_x_loader 100, fake_jpeg_loader]" "''fake.tif''",
        THEN conjunct1, THEN spec [where x = "[fake_jpeg_loader]"],
        THEN spec [where x = "fake_x_loader 100"], THEN spec [where x = "[fake_tiff_loader]"]]
      files_jtx accepts_examples by simp
  have b: "vips_foreign_find_load plain_files [fake_tiff_loader, fake_x_loader 50] ''fake.tif'' =
     Inr (class_name fake_tiff_loader)"
    using t [of "[fake_tiff_loader, fake_x_loader 50]" "''fake.tif''",
        THEN conjunct1, THEN spec [where x = "[]"],
        THEN spec [where x = "fake_tiff_loader"], THEN spec [where x = "[fake_x_loader 50]"]]
      files_tx50 accepts_examples by simp
  have c: "vips_foreign_find_load plain_files [fake_x_loader 50, fake_tiff_loader] ''fake.tif'' =
     Inr (class_name (fake_x_loader 50))"
    using t [of "[fake_x_loader 50, fake_tiff_loader]" "''fake.tif''",
        THEN conjunct1, THEN spec [where x = "[]"],
        THEN spec [where x = "fake_x_loader 50"], THEN spec [where x = "[fake_tiff_loader]"]]
      files_xt50 accepts_examples by simp
  have d: "vips_foreign_find_load_class plain_files
     [fake_tiff_loader, fake_x_loader 100, fake_jpeg_loader] ''other.png'' =
     Inl NotAKnownFileFormat"
    using t [of "[fake_tiff_loader, fake_x_loader 100, fake_jpeg_loader]" "''other.png''",
        THEN conjunct2, THEN conjunct1]
      files_jtx accepts_examples by simp
  have x: "file_loader (fake_x_loader 100)" "sniff_matches ''fake.tif'' (fake_x_loader 100)"
    "\<forall>d \<in> set [fake_jpeg_loader]. file_loader d \<longrightarrow>
       \<not> suffix_only_matches plain_files ''fake.tif'' d"
    by (simp_all add: file_loader_def sniff_matches_def suffix_only_matches_def
        g_str_has_suffix_def fake_x_loader_def fake_jpeg_loader_def)
  have e: "\<exists>c'. vips_foreign_find_load_class plain_files
           [fake_tiff_loader, fake_x_loader 100, fake_jpeg_loader] ''fake.tif'' = Inr c' \<and>
         sniff_matches ''fake.tif'' c'"
    using t [of "[fake_tiff_loader, fake_x_loader 100, fake_jpeg_loader]" "''fake.tif''",
        THEN conjunct2, THEN conjunct2, THEN spec [where x = "[fake_jpeg_loader]"],
        THEN spec [where x = "fake_x_loader 100"], THEN spec [where x = "[fake_tiff_loader]"]]
      files_jtx x by blast
  from a b c d e show ?thesis
    by (simp add: fake_x_loader_def fake_tiff_loader_def)
qed

lemma fold_add_cb:
  "fold vips_foreign_get_suffixes_add_cb cs p =
     p @ concat (map (\<lambda>c. case suffs c of None \<Rightarrow> [] | Some ss \<Rightarrow> ss) cs)"
  by (induction cs arbitrary: p) (auto simp: vips_foreign_get_suffixes_add_cb_def split: option.splits)

lemma fold_count_cb:
  "fold vips_foreign_get_suffixes_count_cb cs n =
     n + length (concat (map (\<lambda>c. case suffs c of None \<Rightarrow> [] | Some ss \<Rightarrow> ss) cs))"
  by (induction cs arbitrary: n) (auto simp: vips_foreign_get_suffixes_count_cb_def split: option.splits)

lemma set_concat_suffs:
  "set (concat (map (\<lambda>c. case suffs c of None \<Rightarrow> [] | Some ss \<Rightarrow> ss) cs)) =
     (\<Union>c \<in> set cs. case suffs c of None \<Rightarrow> {} | Some ss \<Rightarrow> set ss)"
  by (induction cs) (auto split: option.splits)

text \<open>
  C8, amended. \<^verbatim>\<open>vips_foreign_get_suffixes\<close> returns the suffix lists of the
  discoverable savers one after the other, in visiting order; the array has as many
  entries as the first pass counted; its entries, as a set, are the union of those
  suffix lists. A suffix that several savers declare appears once for each of them.
\<close>

theorem vips_foreign_get_suffixes_concat:
  "vips_foreign_get_suffixes registry =
     concat (map (\<lambda>c. case suffs c of None \<Rightarrow> [] | Some ss \<Rightarrow> ss)
       (vips_foreign_map_files registry)) \<and>
   length (vips_foreign_get_suffixes registry) = vips_foreign_get_suffixes_n_suffs registry \<and>
   set (vips_foreign_get_suffixes registry) =
     (\<Union>c \<in> {c \<in> set registry. discoverable c}.
        case suffs c of None \<Rightarrow> {} | Some ss \<Rightarrow> set ss)"
proof -
  have 1: "vips_foreign_get_suffixes registry =
     concat (map (\<lambda>c. case suffs c of None \<Rightarrow> [] | Some ss \<Rightarrow> ss)
       (vips_foreign_map_files registry))"
    by (simp add: vips_foreign_get_suffixes_def fold_add_cb)
  have 2: "length (vips_foreign_get_suffixes registry) = vips_foreign_get_suffixes_n_suffs registry"
    unfolding 1 by (simp add: vips_foreign_get_suffixes_n_suffs_def fold_count_cb)
  have 3: "set (vips_foreign_get_suffixes registry) =
     (\<Union>c \<in> {c \<in> set registry. discoverable c}.
        case suffs c of None \<Rightarrow> {} | Some ss \<Rightarrow> set ss)"
    unfolding 1 set_concat_suffs set_vips_foreign_map_files ..
  from 1 2 3 show ?thesis by blast
qed

text \<open>
  C8 as stated fails: the file saver and the buffer saver of tiff declare the same
  suffixes, and each suffix appears twice in the result.
\<close>

theorem vips_foreign_get_suffixes_duplicates_counterexample:
  "vips_foreign_get_suffixes
     [\<lparr>nickname = ''tiffsave'', class_name = ''VipsForeignSaveTiffFile'', operation_flags = 5,
       priority = 0, suffs = Some [''.tif'', ''.tiff'']\<rparr>,
      \<lparr>nickname = ''tiffsave_buffer'', class_name = ''VipsForeignSaveTiffBuffer'',
       operation_flags = 5, priority = 0, suffs = Some [''.tif'', ''.tiff'']\<rparr>] =
     [''.tif'', ''.tiff'', ''.tif'', ''.tiff''] \<and>
   \<not> distinct (vips_foreign_get_suffixes
     [\<lparr>nickname = ''tiffsave'', class_name = ''VipsForeignSaveTiffFile'', operation_flags = 5,
       priority = 0, suffs = Some [''.tif'', ''.tiff'']\<rparr>,
      \<lparr>nickname = ''tiffsave_buffer'', class_name = ''VipsForeignSaveTiffBuffer'',
       operation_flags = 5, priority = 0, suffs = Some [''.tif'', ''.tiff'']\<rparr>])"
  by (simp add: vips_foreign_get_suffixes_def vips_foreign_map_files_def file_add_class_def
      vips_isprefix_def file_compare_def VIPS_OPERATION_BLOCKED_def
      vips_foreign_get_suffixes_add_cb_def)


section \<open>Properties of the load pipeline\<close>

text \<open>
  C4. The image that \<^verbatim>\<open>vips_foreign_load_temp\<close> makes for the decoded pixels
  follows the decision order of the specification: in memory when the memory flag is
  set or the deprecated disc flag was forced off; otherwise in place when the flags
  include partial; otherwise in place when the flags include sequential and the
  access is not random; otherwise a temporary file when the size of the image exceeds
  the disc threshold; otherwise in memory.
\<close>

theorem vips_foreign_load_temp_decision:
  "store_of (fst (vips_foreign_load_temp env load)) =
     spec_backing_store (memory load \<or> \<not> disc load)
       (flags load AND VIPS_FOREIGN_PARTIAL \<noteq> 0)
       (flags load AND VIPS_FOREIGN_SEQUENTIAL \<noteq> 0)
       (access load \<noteq> VIPS_ACCESS_RANDOM)
       (VIPS_IMAGE_SIZEOF_IMAGE env (out load) > vips_get_disc_threshold env)"
  by (simp add: vips_foreign_load_temp_def spec_backing_store_def Let_def)

text \<open>
  Two runs of C4: a sequential handler under random access whose image exceeds the
  threshold goes to a temporary file; with the disc flag forced off it goes to
  memory.
\<close>

theorem vips_foreign_load_temp_decision_witness:
  "store_of (fst (vips_foreign_load_temp (mismatch_env\<lparr>vips_get_disc_threshold := 1000\<rparr>)
       (fresh_load\<lparr>flags := VIPS_FOREIGN_SEQUENTIAL\<rparr>))) = Temporary_on_disc \<and>
   store_of (fst (vips_foreign_load_temp (mismatch_env\<lparr>vips_get_disc_threshold := 1000\<rparr>)
       (fresh_load\<lparr>flags := VIPS_FOREIGN_SEQUENTIAL, disc := False\<rparr>))) = In_memory"
  using vips_foreign_load_temp_decision [of "mismatch_env\<lparr>vips_get_disc_threshold := 1000\<rparr>"
      "fresh_load\<lparr>flags := VIPS_FOREIGN_SEQUENTIAL\<rparr>"]
    vips_foreign_load_temp_decision [of "mismatch_env\<lparr>vips_get_disc_threshold := 1000\<rparr>"
      "fresh_load\<lparr>flags := VIPS_FOREIGN_SEQUENTIAL, disc := False\<rparr>"]
  by (simp add: spec_backing_store_def fresh_load_def mismatch_env_def header_image_def
      VIPS_FOREIGN_SEQUENTIAL_def VIPS_FOREIGN_PARTIAL_def)

lemma vips_foreign_load_start_error:
  "error load \<Longrightarrow> vips_foreign_load_start env out_image load = (None, load)"
  by (simp add: vips_foreign_load_start_def)

lemma vips_foreign_load_requests_error:
  "error load \<Longrightarrow>
   vips_foreign_load_requests reqs load = (replicate (length reqs) None, load)"
  by (induction reqs) (auto simp: vips_foreign_load_start_error)

text \<open>
  C2. When the first pixel request makes the temporary image and the handler's load
  returns an error, or leaves an image that differs from the header image in width,
  height, bands, coding or band format, then the request fails, the error flag is
  set and the operation is invalidated after this one call of the handler; and in
  every later sequence of requests on this load object each request fails and leaves
  the object as it is, so the handler is not called again.
\<close>

theorem vips_foreign_load_start_failure_permanent:
  assumes "\<not> error load" and "real load = None"
      and "new_temp_image env (fst (vips_foreign_load_temp env load)) = Some r0"
      and "class_load env ((snd (vips_foreign_load_temp env load))\<lparr>real := Some r0\<rparr>) = (rc, r)"
      and "rc \<noteq> 0 \<or> Xsize r \<noteq> Xsize out_image \<or> Ysize r \<noteq> Ysize out_image \<or>
           Bands r \<noteq> Bands out_image \<or> Coding r \<noteq> Coding out_image \<or>
           BandFmt r \<noteq> BandFmt out_image"
  shows "\<exists>load'. vips_foreign_load_start env out_image load = (None, load') \<and>
           error load' \<and> invalidated load' \<and> load_calls load' = Suc (load_calls load) \<and>
           (\<forall>reqs. vips_foreign_load_requests reqs load' =
                      (replicate (length reqs) None, load'))"
proof -
  obtain temp load1 where t: "vips_foreign_load_temp env load = (temp, load1)"
    by (cases "vips_foreign_load_temp env load")
  have calls: "load_calls load1 = load_calls load"
    using t by (auto simp: vips_foreign_load_temp_def Let_def split: if_splits)
  let ?load3 = "load1\<lparr>real := Some r, load_calls := Suc (load_calls load1)\<rparr>"
  let ?load' = "?load3\<lparr>invalidated := True, error := True\<rparr>"
  have fail: "rc \<noteq> 0 \<or> vips_image_pio_input env r \<noteq> 0 \<or> \<not> vips_foreign_load_iscompat r out_image"
    using assms(5) by (auto simp: vips_foreign_load_iscompat_def)
  have "vips_foreign_load_start env out_image load = (None, ?load')"
    using assms(1-4) t fail by (simp add: vips_foreign_load_start_def)
  moreover have "error ?load'" "invalidated ?load'" "load_calls ?load' = Suc (load_calls load)"
    using calls by simp_all
  ultimately show ?thesis
    using vips_foreign_load_requests_error [of ?load'] by blast
qed

text \<open>
  A run of C2: the load of the example leaves an image of another width; the first
  request fails after one call of the handler, and two more requests fail at once.
\<close>

theorem vips_foreign_load_start_failure_permanent_witness:
  "\<not> error fresh_load \<and> real fresh_load = None \<and>
   Xsize (snd (class_load mismatch_env fresh_load)) \<noteq> Xsize header_image \<and>
   (\<exists>load'. vips_foreign_load_start mismatch_env header_image fresh_load = (None, load') \<and>
      error load' \<and> invalidated load' \<and> load_calls load' = 1 \<and>
      vips_foreign_load_requests [(mismatch_env, header_image), (mismatch_env, header_image)] load' =
        ([None, None], load'))"
proof -
  have h1: "\<not> error fresh_load" and h2: "real fresh_load = None"
    by (simp_all add: fresh_load_def)
  have h3: "new_temp_image mismatch_env (fst (vips_foreign_load_temp mismatch_env fresh_load)) =
      Some (header_image\<lparr>Xsize := 0, Ysize := 0\<rparr>)"
    by (simp add: mismatch_env_def)
  have h4: "class_load mismatch_env
      ((snd (vips_foreign_load_temp mismatch_env fresh_load))\<lparr>real := Some (header_image\<lparr>Xsize := 0, Ysize := 0\<rparr>)\<rparr>) =
      (0, header_image\<lparr>Xsize := 320\<rparr>)"
    by (simp add: mismatch_env_def)
  have h5: "(0::int) \<noteq> 0 \<or> Xsize (header_image\<lparr>Xsize := 320\<rparr>) \<noteq> Xsize header_image \<or>
      Ysize (header_image\<lparr>Xsize := 320\<rparr>) \<noteq> Ysize header_image \<or>
      Bands (header_image\<lparr>Xsize := 320\<rparr>) \<noteq> Bands header_image \<or>
      Coding (header_image\<lparr>Xsize := 320\<rparr>) \<noteq> Coding header_image \<or>
      BandFmt (header_image\<lparr>Xsize := 320\<rparr>) \<noteq> BandFmt header_image"
    by (simp add: header_image_def)
  from vips_foreign_load_start_failure_permanent [OF h1 h2 h3 h4 h5]
  obtain load' where l: "vips_foreign_load_start mismatch_env header_image fresh_load = (None, load')"
    "error load'" "invalidated load'" "load_calls load' = Suc (load_calls fresh_load)"
    "\<forall>reqs. vips_foreign_load_requests reqs load' = (replicate (length reqs) None, load')"
    by blast
  from l(5) have "vips_foreign_load_requests [(mismatch_env, header_image), (mismatch_env, header_image)] load' =
        ([None, None], load')"
    by (metis length_Cons list.size(3) replicate_0 replicate_Suc)
  moreover have "load_calls load' = 1" using l(4) by (simp add: fresh_load_def)
  moreover have "Xsize (snd (class_load mismatch_env fresh_load)) \<noteq> Xsize header_image"
    by (simp add: mismatch_env_def header_image_def)
  ultimately show ?thesis using h1 h2 l(1-3) by blast
qed


section \<open>Properties of the saveable normalizer\<close>

text \<open>
  C3. The normalizer returns its input image, whatever the image operations would
  do, when the image is coded as LABQ or RAD and the coding mask of the saver has
  that coding, and when the image is uncoded, the saveable mask is ANY and the format
  table maps the band format of the image to itself.
\<close>

theorem convert_saveable_identity:
  assumes "(Coding im = VIPS_CODING_LABQ \<and> cd AND VIPS_FOREIGN_CODING_LABQ \<noteq> 0) \<or>
           (Coding im = VIPS_CODING_RAD \<and> cd AND VIPS_FOREIGN_CODING_RAD \<noteq> 0) \<or>
           (Coding im = VIPS_CODING_NONE \<and> sv = VIPS_FOREIGN_SAVEABLE_ANY \<and>
            format (BandFmt im) = BandFmt im)"
  shows "vips__foreign_convert_saveable ops im sv format cd bg = Inr im"
  using assms by (auto simp: vips__foreign_convert_saveable_def)

text \<open>
  Two runs of C3 with image operations that all fail: an 8-bit three-band uncoded
  image against a saver that takes any image and casts nothing, and a LABQ image
  against a saver whose coding mask has LABQ.
\<close>

theorem convert_saveable_identity_witness:
  "vips__foreign_convert_saveable
     (header_ops\<lparr>vips_cast := (\<lambda>_ _ _. None), vips_extract_band := (\<lambda>_ _ _. None),
        vips_copy := (\<lambda>_. None)\<rparr>)
     header_image VIPS_FOREIGN_SAVEABLE_ANY vips_foreign_save_format_table
     VIPS_FOREIGN_CODING_NONE undefined = Inr header_image \<and>
   vips__foreign_convert_saveable
     (header_ops\<lparr>vips_cast := (\<lambda>_ _ _. None), vips_extract_band := (\<lambda>_ _ _. None),
        vips_copy := (\<lambda>_. None)\<rparr>)
     (header_image\<lparr>Bands := 4, Coding := VIPS_CODING_LABQ, Type := VIPS_INTERPRETATION_LABQ\<rparr>)
     VIPS_FOREIGN_SAVEABLE_RGB bandfmt_jpeg
     (VIPS_FOREIGN_CODING_NONE OR VIPS_FOREIGN_CODING_LABQ) undefined =
     Inr (header_image\<lparr>Bands := 4, Coding := VIPS_CODING_LABQ, Type := VIPS_INTERPRETATION_LABQ\<rparr>)"
proof -
  let ?ops = "header_ops\<lparr>vips_cast := (\<lambda>_ _ _. None), vips_extract_band := (\<lambda>_ _ _. None),
        vips_copy := (\<lambda>_. None)\<rparr>"
  let ?labq = "header_image\<lparr>Bands := 4, Coding := VIPS_CODING_LABQ, Type := VIPS_INTERPRETATION_LABQ\<rparr>"
  have a: "(Coding header_image = VIPS_CODING_LABQ \<and>
            VIPS_FOREIGN_CODING_NONE AND VIPS_FOREIGN_CODING_LABQ \<noteq> 0) \<or>
           (Coding header_image = VIPS_CODING_RAD \<and>
            VIPS_FOREIGN_CODING_NONE AND VIPS_FOREIGN_CODING_RAD \<noteq> 0) \<or>
           (Coding header_image = VIPS_CODING_NONE \<and>
            VIPS_FOREIGN_SAVEABLE_ANY = VIPS_FOREIGN_SAVEABLE_ANY \<and>
            vips_foreign_save_format_table (BandFmt header_image) = BandFmt header_image)"
    by (simp add: header_image_def vips_foreign_save_format_table_def)
  have b: "(Coding ?labq = VIPS_CODING_LABQ \<and>
            (VIPS_FOREIGN_CODING_NONE OR VIPS_FOREIGN_CODING_LABQ) AND VIPS_FOREIGN_CODING_LABQ \<noteq> 0) \<or>
           (Coding ?labq = VIPS_CODING_RAD \<and>
            (VIPS_FOREIGN_CODING_NONE OR VIPS_FOREIGN_CODING_LABQ) AND VIPS_FOREIGN_CODING_RAD \<noteq> 0) \<or>
           (Coding ?labq = VIPS_CODING_NONE \<and>
            VIPS_FOREIGN_SAVEABLE_RGB = VIPS_FOREIGN_SAVEABLE_ANY \<and>
            bandfmt_jpeg (BandFmt ?labq) = BandFmt ?labq)"
    by (simp add: VIPS_FOREIGN_CODING_NONE_def VIPS_FOREIGN_CODING_LABQ_def)
  show ?thesis
    using convert_saveable_identity [where ops = ?ops and bg = undefined and
          im = header_image and cd = VIPS_FOREIGN_CODING_NONE and
          sv = VIPS_FOREIGN_SAVEABLE_ANY and format = vips_foreign_save_format_table, OF a]
      convert_saveable_identity [where ops = ?ops and bg = undefined and im = ?labq and
          cd = "VIPS_FOREIGN_CODING_NONE OR VIPS_FOREIGN_CODING_LABQ" and
          sv = VIPS_FOREIGN_SAVEABLE_RGB and format = bandfmt_jpeg, OF b]
    by simp
qed

lemma is8bit_bits: "vips_band_format_is8bit f = (format_bits f = 8)"
  by (cases f) simp_all

lemma format_bits_wider: "(format_bits f \<noteq> 8) = (8 < format_bits f)"
  by (cases f) simp_all

text \<open>
  The cast block on its own: for an uncoded image it calls \<^verbatim>\<open>vips_cast\<close> with
  the format of the table, and with \<^verbatim>\<open>shift\<close> set exactly when the band format of
  the image is wider than 8 bits and the format of the table has 8 bits.
\<close>

lemma cast_to_format_call:
  assumes "Coding im = VIPS_CODING_NONE"
  shows "cast_to_format ops im format =
           vips_cast ops im (format (BandFmt im))
             (8 < format_bits (BandFmt im) \<and> format_bits (format (BandFmt im)) = 8)"
  using assms by (simp add: cast_to_format_def is8bit_bits format_bits_wider)

lemma spec_cast_element_shift:
  assumes "format_isint src" "8 < format_bits src" "format_bits dst = 8"
  shows "spec_cast_element src dst True v = v div 2 ^ (format_bits src - 8)"
proof -
  have "format_isint dst" using assms(3) by (cases dst) simp_all
  with assms show ?thesis by (simp add: spec_cast_element_def)
qed

text \<open>
  C6. When \<^verbatim>\<open>vips__foreign_convert_saveable\<close> does not return its input at once,
  and the conversions before the cast (colour model, alpha, excess bands) succeed and
  leave an uncoded image, the result of the normalizer is what \<^verbatim>\<open>vips_cast\<close>
  makes of that image, called with the format of the table and with \<^verbatim>\<open>shift\<close>
  set exactly when the band format of the image is wider than 8 bits and the format
  of the table has 8 bits (and then recoded); a failing cast fails the normalizer.
  With the cast of the specification, an image of a wider integer format that goes
  to an 8-bit format for a saver that takes uncoded images comes out with every band
  element shifted right by the difference of the widths.
\<close>

theorem convert_saveable_cast_shift:
  assumes "\<not> ((Coding im = VIPS_CODING_LABQ \<and> cd AND VIPS_FOREIGN_CODING_LABQ \<noteq> 0) \<or>
              (Coding im = VIPS_CODING_RAD \<and> cd AND VIPS_FOREIGN_CODING_RAD \<noteq> 0))"
      and "\<not> (Coding im = VIPS_CODING_NONE \<and> sv = VIPS_FOREIGN_SAVEABLE_ANY \<and>
              format (BandFmt im) = BandFmt im)"
      and "vips_foreign_apply_saveable ops im sv = Inr modelled"
      and "flatten_alpha ops modelled sv bg = Some flattened"
      and "drop_excess_bands ops flattened sv = Some trimmed"
      and "Coding trimmed = VIPS_CODING_NONE"
  shows "vips__foreign_convert_saveable ops im sv format cd bg =
           (case vips_cast ops trimmed (format (BandFmt trimmed))
                   (8 < format_bits (BandFmt trimmed) \<and>
                    format_bits (format (BandFmt trimmed)) = 8) of
              None \<Rightarrow> Inl OperationFailed
            | Some cast \<Rightarrow>
                (case recode ops cast cd of
                   None \<Rightarrow> Inl OperationFailed
                 | Some recoded \<Rightarrow> Inr recoded)) \<and>
         (vips_cast ops = spec_vips_cast \<longrightarrow>
          format_isint (BandFmt trimmed) \<longrightarrow> 8 < format_bits (BandFmt trimmed) \<longrightarrow>
          format_bits (format (BandFmt trimmed)) = 8 \<longrightarrow>
          cd AND VIPS_FOREIGN_CODING_NONE \<noteq> 0 \<longrightarrow>
          vips__foreign_convert_saveable ops im sv format cd bg =
            Inr (trimmed\<lparr>BandFmt := format (BandFmt trimmed),
                   pels := map (\<lambda>v. v div 2 ^ (format_bits (BandFmt trimmed) - 8))
                             (pels trimmed)\<rparr>))"
proof -
  let ?shift = "8 < format_bits (BandFmt trimmed) \<and> format_bits (format (BandFmt trimmed)) = 8"
  have call: "cast_to_format ops trimmed format =
      vips_cast ops trimmed (format (BandFmt trimmed)) ?shift"
    by (rule cast_to_format_call [OF assms(6)])
  have whole: "vips__foreign_convert_saveable ops im sv format cd bg =
      (case vips_cast ops trimmed (format (BandFmt trimmed)) ?shift of
         None \<Rightarrow> Inl OperationFailed
       | Some cast \<Rightarrow>
           (case recode ops cast cd of
              None \<Rightarrow> Inl OperationFailed
            | Some recoded \<Rightarrow> Inr recoded))"
  proof -
    have nf1: "((Coding im = VIPS_CODING_LABQ \<and> cd AND VIPS_FOREIGN_CODING_LABQ \<noteq> 0) \<or>
                (Coding im = VIPS_CODING_RAD \<and> cd AND VIPS_FOREIGN_CODING_RAD \<noteq> 0)) = False"
      using assms(1) by (rule eq_False [THEN iffD2])
    have nf2: "(Coding im = VIPS_CODING_NONE \<and> sv = VIPS_FOREIGN_SAVEABLE_ANY \<and>
                format (BandFmt im) = BandFmt im) = False"
      using assms(2) by (rule eq_False [THEN iffD2])
    show ?thesis
      unfolding vips__foreign_convert_saveable_def nf1 nf2
      by (simp add: assms(3-5) call)
  qed
  have pix: "vips__foreign_convert_saveable ops im sv format cd bg =
      Inr (trimmed\<lparr>BandFmt := format (BandFmt trimmed),
             pels := map (\<lambda>v. v div 2 ^ (format_bits (BandFmt trimmed) - 8)) (pels trimmed)\<rparr>)"
    if c: "vips_cast ops = spec_vips_cast" and i: "format_isint (BandFmt trimmed)"
      and w: "8 < format_bits (BandFmt trimmed)"
      and e: "format_bits (format (BandFmt trimmed)) = 8"
      and n: "cd AND VIPS_FOREIGN_CODING_NONE \<noteq> 0"
  proof -
    let ?out = "trimmed\<lparr>BandFmt := format (BandFmt trimmed),
             pels := map (\<lambda>v. v div 2 ^ (format_bits (BandFmt trimmed) - 8)) (pels trimmed)\<rparr>"
    have "vips_cast ops trimmed (format (BandFmt trimmed)) ?shift = Some ?out"
      using w e by (simp add: c spec_vips_cast_def spec_cast_element_shift [OF i w e])
    moreover have "recode ops ?out cd = Some ?out"
      using assms(6) n by (simp add: recode_def)
    ultimately show ?thesis by (simp add: whole)
  qed
  from whole pix show ?thesis by blast
qed

text \<open>
  A run of C6, the jpeg-in-tiff path of the tiff saver (mono, RGB and CMYK; the
  all-uchar table): the 16-bit grey image with the value 0x1234 comes out as an
  8-bit image with the value 0x12, not 0x34.
\<close>

theorem convert_saveable_cast_shift_witness:
  "vips__foreign_convert_saveable (header_ops\<lparr>vips_cast := spec_vips_cast\<rparr>) grey16_image
     (VIPS_FOREIGN_SAVEABLE_MONO OR VIPS_FOREIGN_SAVEABLE_RGB OR VIPS_FOREIGN_SAVEABLE_CMYK)
     bandfmt_jpeg (VIPS_FOREIGN_CODING_NONE OR VIPS_FOREIGN_CODING_LABQ) undefined =
     Inr (grey16_image\<lparr>BandFmt := VIPS_FORMAT_UCHAR, pels := [0x12]\<rparr>) \<and>
   pels grey16_image = [0x1234] \<and> (0x12 :: int) \<noteq> 0x34"
proof -
  let ?ops = "header_ops\<lparr>vips_cast := spec_vips_cast\<rparr>"
  let ?sv = "VIPS_FOREIGN_SAVEABLE_MONO OR VIPS_FOREIGN_SAVEABLE_RGB OR VIPS_FOREIGN_SAVEABLE_CMYK"
  let ?cd = "VIPS_FOREIGN_CODING_NONE OR VIPS_FOREIGN_CODING_LABQ"
  have sv: "?sv = 7" "?sv \<noteq> VIPS_FOREIGN_SAVEABLE_ANY"
    by (simp_all add: VIPS_FOREIGN_SAVEABLE_MONO_def VIPS_FOREIGN_SAVEABLE_RGB_def
        VIPS_FOREIGN_SAVEABLE_CMYK_def VIPS_FOREIGN_SAVEABLE_ANY_def)
  have h1: "\<not> ((Coding grey16_image = VIPS_CODING_LABQ \<and> ?cd AND VIPS_FOREIGN_CODING_LABQ \<noteq> 0) \<or>
              (Coding grey16_image = VIPS_CODING_RAD \<and> ?cd AND VIPS_FOREIGN_CODING_RAD \<noteq> 0))"
    by (simp add: grey16_image_def)
  have h2: "\<not> (Coding grey16_image = VIPS_CODING_NONE \<and> ?sv = VIPS_FOREIGN_SAVEABLE_ANY \<and>
              bandfmt_jpeg (BandFmt grey16_image) = BandFmt grey16_image)"
    by (simp add: grey16_image_def bandfmt_jpeg_def)
  have h3: "vips_foreign_apply_saveable ?ops grey16_image ?sv = Inr grey16_image"
    by (simp add: vips_foreign_apply_saveable_def sv)
       (simp add: grey16_image_def VIPS_FOREIGN_SAVEABLE_ANY_def VIPS_FOREIGN_SAVEABLE_MONO_def)
  have h4: "flatten_alpha ?ops grey16_image ?sv undefined = Some grey16_image"
    by (simp add: flatten_alpha_def header_ops_def grey16_image_def)
  have h5: "drop_excess_bands ?ops grey16_image ?sv = Some grey16_image"
    by (simp add: drop_excess_bands_def header_ops_def grey16_image_def)
  have h6: "Coding grey16_image = VIPS_CODING_NONE"
    by (simp add: grey16_image_def)
  have c: "vips_cast ?ops = spec_vips_cast" by simp
  have i: "format_isint (BandFmt grey16_image)" "8 < format_bits (BandFmt grey16_image)"
    "format_bits (bandfmt_jpeg (BandFmt grey16_image)) = 8"
    by (simp_all add: grey16_image_def bandfmt_jpeg_def)
  have n: "?cd AND VIPS_FOREIGN_CODING_NONE \<noteq> 0"
    by (simp add: VIPS_FOREIGN_CODING_NONE_def VIPS_FOREIGN_CODING_LABQ_def)
  from convert_saveable_cast_shift [where ops = ?ops and im = grey16_image and sv = ?sv
      and cd = ?cd and bg = undefined and format = bandfmt_jpeg and modelled = grey16_image
      and flattened = grey16_image and trimmed = grey16_image,
      OF h1 h2 h3 h4 h5 h6, THEN conjunct2]
    c i n
  have "vips__foreign_convert_saveable ?ops grey16_image ?sv bandfmt_jpeg ?cd undefined =
      Inr (grey16_image\<lparr>BandFmt := bandfmt_jpeg (BandFmt grey16_image),
             pels := map (\<lambda>v. v div 2 ^ (format_bits (BandFmt grey16_image) - 8))
                       (pels grey16_image)\<rparr>)"
    by blast
  then show ?thesis
    by (simp add: grey16_image_def bandfmt_jpeg_def)
qed

text \<open>
  The trimming step on an image whose guessed interpretation is none of the grey, RGB
  family and CMYK ones, for a saveable mask other than ANY: without the alpha flag the
  image passes unchanged, with the alpha flag an image of more than one band is cut
  down to its first band.
\<close>

lemma drop_excess_bands_unrecognised_no_alpha:
  assumes "interpretation_max_bands (vips_image_guess_interpretation ops im) = 0"
      and "sv \<noteq> VIPS_FOREIGN_SAVEABLE_ANY"
      and "sv AND VIPS_FOREIGN_SAVEABLE_ALPHA = 0"
  shows "drop_excess_bands ops im sv = Some im"
  using assms by (simp add: drop_excess_bands_def)

lemma drop_excess_bands_unrecognised_alpha:
  assumes "Coding im = VIPS_CODING_NONE"
      and "interpretation_max_bands (vips_image_guess_interpretation ops im) = 0"
      and "sv \<noteq> VIPS_FOREIGN_SAVEABLE_ANY"
      and "sv AND VIPS_FOREIGN_SAVEABLE_ALPHA \<noteq> 0"
      and "Bands im > 1"
  shows "drop_excess_bands ops im sv = vips_extract_band ops im 0 1"
  using assms by (simp add: drop_excess_bands_def)

text \<open>
  C10. An image with an unrecognised interpretation is meant to keep all its bands
  (the limit 0 stands for no limit). For a saver with the alpha flag the limit 0
  becomes 1: the two-band histogram image, uncoded and with the unrecognised
  interpretation HISTOGRAM, loses its second band in the trimming step, and so in the
  whole normalizer, for a saver that takes mono, RGB and alpha.
\<close>

theorem drop_excess_bands_trims_histogram:
  "Coding histogram_image = VIPS_CODING_NONE \<and>
   interpretation_max_bands (vips_image_guess_interpretation header_ops histogram_image) = 0 \<and>
   VIPS_FOREIGN_SAVEABLE_MONO OR VIPS_FOREIGN_SAVEABLE_RGB OR VIPS_FOREIGN_SAVEABLE_ALPHA
     \<noteq> VIPS_FOREIGN_SAVEABLE_ANY \<and>
   Bands histogram_image = 2 \<and>
   drop_excess_bands header_ops histogram_image
     (VIPS_FOREIGN_SAVEABLE_MONO OR VIPS_FOREIGN_SAVEABLE_RGB OR VIPS_FOREIGN_SAVEABLE_ALPHA) =
     Some (histogram_image\<lparr>Bands := 1\<rparr>) \<and>
   vips__foreign_convert_saveable header_ops histogram_image
     (VIPS_FOREIGN_SAVEABLE_MONO OR VIPS_FOREIGN_SAVEABLE_RGB OR VIPS_FOREIGN_SAVEABLE_ALPHA)
     vips_foreign_save_format_table VIPS_FOREIGN_CODING_NONE undefined =
     Inr (histogram_image\<lparr>Bands := 1\<rparr>)"
  by (simp add: drop_excess_bands_def vips__foreign_convert_saveable_def
      vips_foreign_apply_saveable_def flatten_alpha_def cast_to_format_def recode_def
      header_ops_def histogram_image_def vips_foreign_save_format_table_def
      VIPS_FOREIGN_SAVEABLE_MONO_def VIPS_FOREIGN_SAVEABLE_RGB_def
      VIPS_FOREIGN_SAVEABLE_ALPHA_def VIPS_FOREIGN_SAVEABLE_ANY_def
      VIPS_FOREIGN_CODING_NONE_def VIPS_FOREIGN_CODING_LABQ_def VIPS_FOREIGN_CODING_RAD_def)

section \<open>Properties of the metadata policy and the save build\<close>

lemma map_of_filter_fst:
  "map_of (filter (\<lambda>kv. fst kv \<noteq> f) m) k = (if k = f then None else map_of m k)"
  by (induction m) auto

lemma fst_set_filter_fst:
  "fst ` set (filter (\<lambda>kv. fst kv \<noteq> f) m) = fst ` set m - {f}"
  by (induction m) auto

lemma vips_image_remove_present:
  "f \<in> fst ` set (meta im) \<Longrightarrow>
   vips_image_remove im f = (True, im\<lparr>meta := filter (\<lambda>kv. fst kv \<noteq> f) (meta im)\<rparr>)"
  by (auto simp: vips_image_remove_def map_of_eq_None_iff)

lemma remove_metadata_callback_cases:
  assumes "f \<in> fst ` set (meta im)"
  shows "vips_foreign_save_remove_metadata im f keep_mask = (False, im) \<or>
         vips_foreign_save_remove_metadata im f keep_mask =
           (False, im\<lparr>meta := filter (\<lambda>kv. fst kv \<noteq> f) (meta im)\<rparr>)"
  unfolding vips_foreign_save_remove_metadata_def vips_image_remove_present [OF assms]
  by simp

lemma vips_image_map_remove_never_stops:
  assumes "distinct names" "set names \<subseteq> fst ` set (meta im)"
  shows "fst (vips_image_map_remove names im keep_mask) = False"
  using assms
proof (induction names arbitrary: im)
  case Nil
  then show ?case by simp
next
  case (Cons f names)
  have f: "f \<in> fst ` set (meta im)" using Cons.prems by simp
  from remove_metadata_callback_cases [OF f, of keep_mask]
  show ?case
  proof
    assume a: "vips_foreign_save_remove_metadata im f keep_mask = (False, im)"
    have "fst (vips_image_map_remove names im keep_mask) = False"
      using Cons.prems by (intro Cons.IH) auto
    with a show ?thesis by simp
  next
    let ?im = "im\<lparr>meta := filter (\<lambda>kv. fst kv \<noteq> f) (meta im)\<rparr>"
    assume a: "vips_foreign_save_remove_metadata im f keep_mask = (False, ?im)"
    have "meta ?im = filter (\<lambda>kv. fst kv \<noteq> f) (meta im)"
      by simp
    then have "fst ` set (meta ?im) = fst ` set (meta im) - {f}"
      by (simp only: fst_set_filter_fst)
    then have "set names \<subseteq> fst ` set (meta ?im)"
      using Cons.prems by auto
    then have "fst (vips_image_map_remove names ?im keep_mask) = False"
      using Cons.prems by (intro Cons.IH) auto
    with a show ?thesis by simp
  qed
qed

lemma remove_metadata_never_stops:
  "distinct (map fst (meta im)) \<Longrightarrow> fst (remove_metadata im keep_mask) = False"
  by (simp add: remove_metadata_def vips_image_map_remove_never_stops)

lemma callback_keeps_icc:
  assumes "keep_mask AND VIPS_FOREIGN_KEEP_ICC \<noteq> 0"
  shows "map_of (meta (snd (vips_foreign_save_remove_metadata im f keep_mask))) VIPS_META_ICC_NAME =
         map_of (meta im) VIPS_META_ICC_NAME"
  using assms
  by (auto simp: vips_foreign_save_remove_metadata_def vips_image_remove_def map_of_filter_fst)

lemma vips_image_map_remove_keeps_icc:
  assumes "keep_mask AND VIPS_FOREIGN_KEEP_ICC \<noteq> 0"
  shows "map_of (meta (snd (vips_image_map_remove names im keep_mask))) VIPS_META_ICC_NAME =
         map_of (meta im) VIPS_META_ICC_NAME"
proof (induction names arbitrary: im)
  case Nil
  then show ?case by simp
next
  case (Cons f names)
  obtain stop im1 where c: "vips_foreign_save_remove_metadata im f keep_mask = (stop, im1)"
    by (cases "vips_foreign_save_remove_metadata im f keep_mask")
  have k: "map_of (meta im1) VIPS_META_ICC_NAME = map_of (meta im) VIPS_META_ICC_NAME"
    using callback_keeps_icc [OF assms, of im f] c by simp
  show ?case
    using c k Cons.IH [of im1] by (cases stop) simp_all
qed

lemma remove_metadata_keeps_icc:
  assumes "keep_mask AND VIPS_FOREIGN_KEEP_ICC \<noteq> 0"
  shows "vips_image_get_blob (snd (remove_metadata im keep_mask)) VIPS_META_ICC_NAME =
         vips_image_get_blob im VIPS_META_ICC_NAME"
  using vips_image_map_remove_keeps_icc [OF assms]
  by (simp add: remove_metadata_def vips_image_get_blob_def)

lemma drop_incompatible_profile_result:
  assumes "keep_mask AND VIPS_FOREIGN_KEEP_ICC \<noteq> 0"
      and "vips_image_get_blob im VIPS_META_ICC_NAME = Some d"
  shows "drop_incompatible_profile env im keep_mask =
           Inr (if vips_icc_is_compatible_profile env im d then im
                else snd (vips_image_remove im VIPS_META_ICC_NAME))"
proof -
  have there: "map_of (meta im) VIPS_META_ICC_NAME \<noteq> None"
    using assms(2) by (auto simp: vips_image_get_blob_def split: option.splits)
  show ?thesis
    using assms there
    by (simp add: drop_incompatible_profile_def vips_image_get_typeof_def vips_image_remove_def)
qed

lemma drop_incompatible_profile_never_fails:
  "drop_incompatible_profile env im keep_mask \<noteq> Inl e"
  by (auto simp: drop_incompatible_profile_def vips_image_get_typeof_def vips_image_remove_def
      split: option.splits)

lemma no_profile_after_remove:
  "\<not> vips_image_get_typeof (snd (vips_image_remove im VIPS_META_ICC_NAME)) VIPS_META_ICC_NAME"
  "vips_image_get_blob (snd (vips_image_remove im VIPS_META_ICC_NAME)) VIPS_META_ICC_NAME = None"
  by (simp_all add: vips_image_get_typeof_def vips_image_get_blob_def vips_image_remove_def
      map_of_filter_fst)

text \<open>
  C7. With ICC in the keep mask, the metadata update fails only when the exif
  rebuild fails (it runs only when the keep mask has EXIF too, and comes before the
  profile is looked at). Once the exif rebuild is through, the update returns
  success; and when the image then carries an ICC profile that is not compatible
  with the image as it is when the check runs, the image that the update returns is
  that image without the profile. So an incompatible profile never makes the update
  fail. (The names of the metadata fields of an image are distinct.)
\<close>

theorem update_metadata_incompatible_profile:
  assumes "keep_mask AND VIPS_FOREIGN_KEEP_ICC \<noteq> 0"
  shows "(case rebuild_exif env im keep_mask of
            None \<Rightarrow>
              vips__foreign_update_metadata env im keep_mask = Inl ExifUpdateFailed \<and>
              keep_mask AND VIPS_FOREIGN_KEEP_EXIF \<noteq> 0 \<and> vips__exif_update env im = None
          | Some im1 \<Rightarrow>
              distinct (map fst (meta im1)) \<longrightarrow>
              (\<exists>result. vips__foreign_update_metadata env im keep_mask = Inr result) \<and>
              (\<forall>d. vips_image_get_blob im1 VIPS_META_ICC_NAME = Some d \<longrightarrow>
                 \<not> vips_icc_is_compatible_profile env (snd (remove_metadata im1 keep_mask)) d \<longrightarrow>
                 vips__foreign_update_metadata env im keep_mask =
                   Inr (snd (vips_image_remove (snd (remove_metadata im1 keep_mask))
                          VIPS_META_ICC_NAME)) \<and>
                 \<not> vips_image_get_typeof
                     (snd (vips_image_remove (snd (remove_metadata im1 keep_mask))
                        VIPS_META_ICC_NAME))
                     VIPS_META_ICC_NAME))"
proof (cases "rebuild_exif env im keep_mask")
  case None
  then show ?thesis
    by (auto simp: vips__foreign_update_metadata_def rebuild_exif_def split: if_splits)
next
  case (Some im1)
  have "(\<exists>result. vips__foreign_update_metadata env im keep_mask = Inr result) \<and>
        (\<forall>d. vips_image_get_blob im1 VIPS_META_ICC_NAME = Some d \<longrightarrow>
           \<not> vips_icc_is_compatible_profile env (snd (remove_metadata im1 keep_mask)) d \<longrightarrow>
           vips__foreign_update_metadata env im keep_mask =
             Inr (snd (vips_image_remove (snd (remove_metadata im1 keep_mask))
                    VIPS_META_ICC_NAME)) \<and>
           \<not> vips_image_get_typeof
               (snd (vips_image_remove (snd (remove_metadata im1 keep_mask))
                  VIPS_META_ICC_NAME))
               VIPS_META_ICC_NAME)"
    if dist: "distinct (map fst (meta im1))"
  proof -
    obtain im2 where r: "remove_metadata im1 keep_mask = (False, im2)"
      using remove_metadata_never_stops [OF dist, of keep_mask]
      by (cases "remove_metadata im1 keep_mask") auto
    have upd: "vips__foreign_update_metadata env im keep_mask =
        drop_incompatible_profile env im2 keep_mask"
      using Some r by (simp add: vips__foreign_update_metadata_def)
    have ok: "\<exists>result. vips__foreign_update_metadata env im keep_mask = Inr result"
      unfolding upd using drop_incompatible_profile_never_fails [of env im2 keep_mask]
      by (cases "drop_incompatible_profile env im2 keep_mask") auto
    have dropped: "vips__foreign_update_metadata env im keep_mask =
        Inr (snd (vips_image_remove im2 VIPS_META_ICC_NAME))"
      if b: "vips_image_get_blob im1 VIPS_META_ICC_NAME = Some d"
        and bad: "\<not> vips_icc_is_compatible_profile env im2 d" for d
    proof -
      have "vips_image_get_blob im2 VIPS_META_ICC_NAME = Some d"
        using remove_metadata_keeps_icc [OF assms, of im1] r b by simp
      from drop_incompatible_profile_result [OF assms this, of env] bad
      show ?thesis by (simp add: upd)
    qed
    show ?thesis
      using ok dropped no_profile_after_remove(1) [of im2] r by simp
  qed
  with Some show ?thesis by simp
qed

lemma remove_metadata_profiled_icc_only:
  "remove_metadata profiled_image VIPS_FOREIGN_KEEP_ICC =
     (False, profiled_image\<lparr>meta := [(''icc-profile-data'', MetaBlob [1, 2, 3])]\<rparr>)"
  by (simp add: remove_metadata_def vips_foreign_save_remove_metadata_def vips_image_remove_def
      vips_isprefix_def g_str_has_suffix_def profiled_image_def
      VIPS_META_ICC_NAME_def VIPS_META_EXIF_NAME_def VIPS_META_XMP_NAME_def
      VIPS_META_IPTC_NAME_def VIPS_META_IMAGEDESCRIPTION_def
      VIPS_FOREIGN_KEEP_ALL_def VIPS_FOREIGN_KEEP_ICC_def VIPS_FOREIGN_KEEP_EXIF_def
      VIPS_FOREIGN_KEEP_XMP_def VIPS_FOREIGN_KEEP_IPTC_def VIPS_FOREIGN_KEEP_OTHER_def)

text \<open>
  Two runs of C7 on the image with an incompatible profile: with the keep mask ICC
  the exif and xmp blocks are removed by the mask, the profile is dropped and the
  update succeeds; with the keep mask ALL and a failing exif rebuild the update
  fails in the exif rebuild.
\<close>

theorem update_metadata_incompatible_profile_witness:
  "vips__foreign_update_metadata (save_env_example True False) profiled_image
     VIPS_FOREIGN_KEEP_ICC = Inr (profiled_image\<lparr>meta := []\<rparr>) \<and>
   vips_image_get_blob profiled_image VIPS_META_ICC_NAME = Some [1, 2, 3] \<and>
   \<not> vips_icc_is_compatible_profile (save_env_example True False)
       (snd (remove_metadata profiled_image VIPS_FOREIGN_KEEP_ICC)) [1, 2, 3] \<and>
   vips__foreign_update_metadata (save_env_example False False) profiled_image
     VIPS_FOREIGN_KEEP_ALL = Inl ExifUpdateFailed \<and>
   vips__exif_update (save_env_example False False) profiled_image = None"
proof -
  have i: "VIPS_FOREIGN_KEEP_ICC AND VIPS_FOREIGN_KEEP_ICC \<noteq> 0"
    "VIPS_FOREIGN_KEEP_ALL AND VIPS_FOREIGN_KEEP_ICC \<noteq> 0"
    by (simp_all add: VIPS_FOREIGN_KEEP_ICC_def VIPS_FOREIGN_KEEP_ALL_def)
  have e1: "rebuild_exif (save_env_example True False) profiled_image VIPS_FOREIGN_KEEP_ICC =
      Some profiled_image"
    by (simp add: rebuild_exif_def VIPS_FOREIGN_KEEP_ICC_def VIPS_FOREIGN_KEEP_EXIF_def)
  have e2: "rebuild_exif (save_env_example False False) profiled_image VIPS_FOREIGN_KEEP_ALL =
      None"
    by (simp add: rebuild_exif_def save_env_example_def VIPS_FOREIGN_KEEP_ALL_def
        VIPS_FOREIGN_KEEP_EXIF_def)
  have dist: "distinct (map fst (meta profiled_image))"
    by (simp add: profiled_image_def)
  have blob: "vips_image_get_blob profiled_image VIPS_META_ICC_NAME = Some [1, 2, 3]"
    by (simp add: vips_image_get_blob_def profiled_image_def VIPS_META_ICC_NAME_def)
  have bad: "\<not> vips_icc_is_compatible_profile (save_env_example True False)
       (snd (remove_metadata profiled_image VIPS_FOREIGN_KEEP_ICC)) [1, 2, 3]"
    by (simp add: save_env_example_def)
  have rem: "snd (vips_image_remove (snd (remove_metadata profiled_image VIPS_FOREIGN_KEEP_ICC))
      VIPS_META_ICC_NAME) = profiled_image\<lparr>meta := []\<rparr>"
    by (simp add: remove_metadata_profiled_icc_only vips_image_remove_def VIPS_META_ICC_NAME_def)
  have a: "vips__foreign_update_metadata (save_env_example True False) profiled_image
     VIPS_FOREIGN_KEEP_ICC = Inr (profiled_image\<lparr>meta := []\<rparr>)"
    using update_metadata_incompatible_profile [OF i(1), of "save_env_example True False"
        profiled_image] dist blob bad
    by (simp add: e1 rem)
  have b: "vips__foreign_update_metadata (save_env_example False False) profiled_image
     VIPS_FOREIGN_KEEP_ALL = Inl ExifUpdateFailed \<and>
     vips__exif_update (save_env_example False False) profiled_image = None"
    using update_metadata_incompatible_profile [OF i(2), of "save_env_example False False"
        profiled_image]
    by (simp add: e2)
  from a b blob bad show ?thesis by simp
qed











end
